theory Spec2Isabelle
  imports Main
begin

section \<open>Errors\<close>

text \<open>
  A Go \<open>error\<close> value is kept symbolically: \<open>errors.New(msg)\<close> is \<open>errors_New msg\<close>,
  \<open>fmt.Errorf(format, args...)\<close> is \<open>fmt_Errorf format args\<close> with the format string of
  the source and its arguments in order, so two errors built at different places of the
  source differ by their format. A \<open>nil\<close> error is \<open>None\<close>. The remaining constructors
  are the error types of package \<open>net/url\<close>.
\<close>

record Userinfo =
  username :: string
  password :: string
  passwordSet :: bool

record URL =
  Scheme :: string
  Opaque :: string
  User :: "Userinfo option"
  Host :: string
  Path :: string
  OmitHost :: bool
  ForceQuery :: bool
  RawQuery :: string
  Fragment :: string

datatype error =
    errors_New string
  | fmt_Errorf string "fmt_arg list"
  | url_Error string string error
  | url_EscapeError string
  | url_InvalidHostError string
and fmt_arg =
    Str string
  | Err error
  | URL_String URL

text \<open>\<open>URL_String u\<close> stands for the text of \<open>u.String()\<close>, which is not rendered.\<close>

section \<open>The message card (message\_card.go)\<close>

text \<open>
  A \<open>bytes.Buffer\<close>: the bytes written so far and the read offset. \<open>Reset\<close> empties
  it, \<open>Write\<close> appends and returns a \<open>nil\<close> error.
\<close>

record Buffer =
  buf :: string
  off :: nat

definition Buffer_Reset :: "Buffer \<Rightarrow> Buffer" where
  "Buffer_Reset b = b\<lparr>buf := [], off := 0\<rparr>"

definition Buffer_Write :: "Buffer \<Rightarrow> string \<Rightarrow> error option \<times> Buffer" where
  "Buffer_Write b p = (None, b\<lparr>buf := buf b @ p\<rparr>)"

text \<open>The struct \<open>MessageCard\<close>; \<open>payload\<close> is a pointer, \<open>None\<close> when \<open>nil\<close>.\<close>

record MessageCard =
  Type :: string
  Context :: string
  Title :: string
  Text :: string
  Color :: string
  payload :: "Buffer option"

definition ErrTitleRequired :: error where
  "ErrTitleRequired = fmt_Errorf ''invalid message card: title required'' []"

definition ErrTextRequired :: error where
  "ErrTextRequired = fmt_Errorf ''invalid message card: text required'' []"

definition MessageCard_Validate :: "MessageCard \<Rightarrow> error option" where
  "MessageCard_Validate mc =
     (if Title mc = [] then Some ErrTitleRequired
      else if Text mc = [] then Some ErrTextRequired
      else None)"

text \<open>
  \<open>json.Marshal\<close> of a struct walks its exported fields in declaration order. Each field
  is described by its \<open>json\<close> tag: the key, whether \<open>omitempty\<close> is set, and the value.
  \<open>payload\<close> is unexported and tagged \<open>json:"-"\<close>, so it is no field of the encoding.
\<close>

record json_field =
  name :: string
  omitEmpty :: bool
  val :: string

definition MessageCard_fields :: "MessageCard \<Rightarrow> json_field list" where
  "MessageCard_fields mc =
     [\<lparr>name = ''@type'', omitEmpty = False, val = Type mc\<rparr>,
      \<lparr>name = ''@context'', omitEmpty = False, val = Context mc\<rparr>,
      \<lparr>name = ''title'', omitEmpty = True, val = Title mc\<rparr>,
      \<lparr>name = ''text'', omitEmpty = True, val = Text mc\<rparr>,
      \<lparr>name = ''color'', omitEmpty = True, val = Color mc\<rparr>]"

text \<open>
  The struct encoder of \<open>encoding/json\<close>: \<open>next\<close> is the byte written before the next
  field, \<open>{\<close> at first and a comma afterwards; an \<open>omitempty\<close> field with an empty
  value is skipped; a struct with no field written is \<open>{}\<close>. The key is written between
  double quotes followed by a colon (none of the keys here has a byte that the encoder
  escapes). \<open>quote\<close> is the encoder's rendering of a Go string as a JSON string literal
  (quoting and escaping), a function of the standard library taken as a parameter.
\<close>

fun encodeFields :: "(string \<Rightarrow> string) \<Rightarrow> char \<Rightarrow> json_field list \<Rightarrow> string" where
  "encodeFields quote next [] = (if next = CHR ''{'' then ''{}'' else ''}'')"
| "encodeFields quote next (f # fs) =
     (if omitEmpty f \<and> val f = [] then encodeFields quote next fs
      else next # ([CHR 0x22] @ name f @ [CHR 0x22, CHR '':'']) @ quote (val f)
             @ encodeFields quote (CHR '','') fs)"

definition json_Marshal :: "(string \<Rightarrow> string) \<Rightarrow> MessageCard \<Rightarrow> error + string" where
  "json_Marshal quote mc = Inr (encodeFields quote (CHR ''{'') (MessageCard_fields mc))"

definition MessageCard_Prepare ::
  "(string \<Rightarrow> string) \<Rightarrow> MessageCard \<Rightarrow> error option \<times> MessageCard" where
  "MessageCard_Prepare quote mc =
     (case json_Marshal quote mc of
        Inl err \<Rightarrow>
          (Some (fmt_Errorf ''error marshalling MessageCard to JSON: %w'' [Err err]), mc)
      | Inr jsonMessage \<Rightarrow>
          (let b = (case payload mc of None \<Rightarrow> \<lparr>buf = [], off = 0\<rparr>
                                        | Some p \<Rightarrow> Buffer_Reset p)
           in case Buffer_Write b jsonMessage of
                (Some err, b') \<Rightarrow>
                  (Some (fmt_Errorf ''errorr writing JSON for MessageCard: %w'' [Err err]),
                   mc\<lparr>payload := Some b'\<rparr>)
              | (None, b') \<Rightarrow> (None, mc\<lparr>payload := Some b'\<rparr>)))"

definition MessageCard_Payload :: "MessageCard \<Rightarrow> Buffer option" where
  "MessageCard_Payload mc = payload mc"

definition CreateMessageCard :: MessageCard where
  "CreateMessageCard =
     \<lparr>Type = ''MessageCard'', Context = ''https://schema.org/extensions'',
      Title = [], Text = [], Color = [], payload = None\<rparr>"

section \<open>Library functions used by the sender\<close>

subsection \<open>Package strings\<close>

definition strings_HasPrefix :: "string \<Rightarrow> string \<Rightarrow> bool" where
  "strings_HasPrefix s prefix = (take (length prefix) s = prefix)"

definition strings_HasSuffix :: "string \<Rightarrow> string \<Rightarrow> bool" where
  "strings_HasSuffix s suffix =
     (length suffix \<le> length s \<and> drop (length s - length suffix) s = suffix)"

text \<open>\<open>strings.Cut\<close> at a separator of one byte: the text before it, the text after it, found.\<close>

definition strings_Cut :: "string \<Rightarrow> char \<Rightarrow> string \<times> string \<times> bool" where
  "strings_Cut s sep =
     (takeWhile (\<lambda>c. c \<noteq> sep) s, drop 1 (dropWhile (\<lambda>c. c \<noteq> sep) s), sep \<in> set s)"

text \<open>\<open>strings.LastIndex\<close> and \<open>strings.Index\<close>; \<open>None\<close> is the result \<open>-1\<close>.\<close>

fun strings_Index :: "string \<Rightarrow> string \<Rightarrow> nat option" where
  "strings_Index [] sub = (if sub = [] then Some 0 else None)"
| "strings_Index (c # cs) sub =
     (if strings_HasPrefix (c # cs) sub then Some 0
      else map_option Suc (strings_Index cs sub))"

definition strings_LastIndexByte :: "string \<Rightarrow> char \<Rightarrow> nat option" where
  "strings_LastIndexByte s c =
     (if c \<in> set s then Some (length s - 1 - length (takeWhile (\<lambda>d. d \<noteq> c) (rev s))) else None)"

text \<open>
  \<open>strings.TrimSpace\<close> removes leading and trailing white space as Unicode defines it.
  A Go string is a sequence of bytes read as UTF-8, so the white space characters are
  listed by their encodings: the six of ASCII, then U+0085, U+00A0, U+1680, U+2000 to
  U+200A, U+2028, U+2029, U+202F, U+205F and U+3000.
\<close>

definition unicode_White_Space :: "string list" where
  "unicode_White_Space =
     [[CHR 0x09], [CHR 0x0A], [CHR 0x0B], [CHR 0x0C], [CHR 0x0D], [CHR 0x20],
      [CHR 0xC2, CHR 0x85], [CHR 0xC2, CHR 0xA0], [CHR 0xE1, CHR 0x9A, CHR 0x80],
      [CHR 0xE2, CHR 0x80, CHR 0x80], [CHR 0xE2, CHR 0x80, CHR 0x81],
      [CHR 0xE2, CHR 0x80, CHR 0x82], [CHR 0xE2, CHR 0x80, CHR 0x83],
      [CHR 0xE2, CHR 0x80, CHR 0x84], [CHR 0xE2, CHR 0x80, CHR 0x85],
      [CHR 0xE2, CHR 0x80, CHR 0x86], [CHR 0xE2, CHR 0x80, CHR 0x87],
      [CHR 0xE2, CHR 0x80, CHR 0x88], [CHR 0xE2, CHR 0x80, CHR 0x89],
      [CHR 0xE2, CHR 0x80, CHR 0x8A], [CHR 0xE2, CHR 0x80, CHR 0xA8],
      [CHR 0xE2, CHR 0x80, CHR 0xA9], [CHR 0xE2, CHR 0x80, CHR 0xAF],
      [CHR 0xE2, CHR 0x81, CHR 0x9F], [CHR 0xE3, CHR 0x80, CHR 0x80]]"

text \<open>The number of bytes of the white space character a string starts or ends with, 0 if none.\<close>

definition leading_space :: "string \<Rightarrow> nat" where
  "leading_space s =
     (case filter (strings_HasPrefix s) unicode_White_Space of [] \<Rightarrow> 0 | w # _ \<Rightarrow> length w)"

definition trailing_space :: "string \<Rightarrow> nat" where
  "trailing_space s =
     (case filter (strings_HasSuffix s) unicode_White_Space of [] \<Rightarrow> 0 | w # _ \<Rightarrow> length w)"

function strings_TrimLeftSpace :: "string \<Rightarrow> string" where
  "strings_TrimLeftSpace s =
     (if s = [] \<or> leading_space s = 0 then s
      else strings_TrimLeftSpace (drop (leading_space s) s))"
  by pat_completeness auto
termination
  by (relation "measure length") auto

function strings_TrimRightSpace :: "string \<Rightarrow> string" where
  "strings_TrimRightSpace s =
     (if s = [] \<or> trailing_space s = 0 then s
      else strings_TrimRightSpace (take (length s - trailing_space s) s))"
  by pat_completeness auto
termination
  by (relation "measure length") auto

definition strings_TrimSpace :: "string \<Rightarrow> string" where
  "strings_TrimSpace s = strings_TrimRightSpace (strings_TrimLeftSpace s)"

subsection \<open>Package regexp\<close>

text \<open>
  A compiled regular expression, with the operators of \<open>regexp/syntax\<close> that the
  pattern of this program uses. \<open>OpAnyCharNotNL\<close> is the dot, \<open>OpBeginText\<close> is \<open>^\<close>.
\<close>

datatype regexp =
    OpNoMatch
  | OpEmptyMatch
  | OpLiteral char
  | OpAnyCharNotNL
  | OpBeginText
  | OpConcat regexp regexp
  | OpAlternate regexp regexp
  | OpStar regexp
  | OpQuest regexp

fun literals :: "string \<Rightarrow> regexp" where
  "literals [] = OpEmptyMatch"
| "literals (c # cs) = OpConcat (OpLiteral c) (literals cs)"

text \<open>
  Matching by derivatives. The flag \<open>b\<close> says that the position is the beginning of the
  text. \<open>nullable b r\<close>: \<open>r\<close> matches the empty string here. \<open>deriv b c r\<close> matches
  what \<open>r\<close> matches after the byte \<open>c\<close>. \<open>concat'\<close> and \<open>alternate'\<close> build the
  expression and drop branches that cannot match.
\<close>

fun nullable :: "bool \<Rightarrow> regexp \<Rightarrow> bool" where
  "nullable b OpNoMatch = False"
| "nullable b OpEmptyMatch = True"
| "nullable b (OpLiteral c) = False"
| "nullable b OpAnyCharNotNL = False"
| "nullable b OpBeginText = b"
| "nullable b (OpConcat r s) = (nullable b r \<and> nullable b s)"
| "nullable b (OpAlternate r s) = (nullable b r \<or> nullable b s)"
| "nullable b (OpStar r) = True"
| "nullable b (OpQuest r) = True"

fun concat' :: "regexp \<Rightarrow> regexp \<Rightarrow> regexp" where
  "concat' OpNoMatch s = OpNoMatch"
| "concat' OpEmptyMatch s = s"
| "concat' r s = OpConcat r s"

fun alternate' :: "regexp \<Rightarrow> regexp \<Rightarrow> regexp" where
  "alternate' OpNoMatch s = s"
| "alternate' r OpNoMatch = r"
| "alternate' r s = OpAlternate r s"

fun deriv :: "bool \<Rightarrow> char \<Rightarrow> regexp \<Rightarrow> regexp" where
  "deriv b c OpNoMatch = OpNoMatch"
| "deriv b c OpEmptyMatch = OpNoMatch"
| "deriv b c (OpLiteral d) = (if c = d then OpEmptyMatch else OpNoMatch)"
| "deriv b c OpAnyCharNotNL = (if c = CHR 0x0A then OpNoMatch else OpEmptyMatch)"
| "deriv b c OpBeginText = OpNoMatch"
| "deriv b c (OpConcat r s) =
     alternate' (concat' (deriv b c r) s) (if nullable b r then deriv b c s else OpNoMatch)"
| "deriv b c (OpAlternate r s) = alternate' (deriv b c r) (deriv b c s)"
| "deriv b c (OpStar r) = concat' (deriv b c r) (OpStar r)"
| "deriv b c (OpQuest r) = deriv b c r"

text \<open>\<open>match_here\<close>: a match starts at this position; \<open>match_anywhere\<close>: here or later.\<close>

fun match_here :: "bool \<Rightarrow> regexp \<Rightarrow> string \<Rightarrow> bool" where
  "match_here b r [] = nullable b r"
| "match_here b r (c # cs) = (nullable b r \<or> match_here False (deriv b c r) cs)"

fun match_anywhere :: "bool \<Rightarrow> regexp \<Rightarrow> string \<Rightarrow> bool" where
  "match_anywhere b r [] = nullable b r"
| "match_anywhere b r (c # cs) = (match_here b r (c # cs) \<or> match_anywhere False r cs)"

text \<open>
  \<open>regexp.MatchString\<close> reports whether the string contains any match of the pattern.
  Its error is the one of compiling the pattern; an expression given in compiled form has
  none.
\<close>

definition regexp_MatchString :: "regexp \<Rightarrow> string \<Rightarrow> error + bool" where
  "regexp_MatchString pattern s = Inr (match_anywhere True pattern s)"

text \<open>
  What an expression denotes: \<open>lang b r\<close> is the set of strings \<open>r\<close> matches from a
  position that is the beginning of the text iff \<open>b\<close>. It is the yardstick for the
  matcher above.
\<close>

inductive_set star :: "string set \<Rightarrow> string set" for A :: "string set" where
  star_Nil: "[] \<in> star A"
| star_app: "u \<in> A \<Longrightarrow> v \<in> star A \<Longrightarrow> u @ v \<in> star A"

fun lang :: "bool \<Rightarrow> regexp \<Rightarrow> string set" where
  "lang b OpNoMatch = {}"
| "lang b OpEmptyMatch = {[]}"
| "lang b (OpLiteral c) = {[c]}"
| "lang b OpAnyCharNotNL = {[c] | c. c \<noteq> CHR 0x0A}"
| "lang b OpBeginText = (if b then {[]} else {})"
| "lang b (OpConcat r s) = {u @ v | u v. u \<in> lang b r \<and> v \<in> lang (b \<and> u = []) s}"
| "lang b (OpAlternate r s) = lang b r \<union> lang b s"
| "lang b (OpStar r) = {u @ v | u v. u \<in> insert [] (lang b r) \<and> v \<in> star (lang False r)}"
| "lang b (OpQuest r) = insert [] (lang b r)"

subsection \<open>Package net/url\<close>

text \<open>
  \<open>url.Parse\<close> as of Go 1.20, the release current when the program was written; the
  fields \<open>RawPath\<close> and \<open>RawFragment\<close>, hints on how a path or fragment was escaped,
  are left out of \<open>URL\<close>. The sender takes the parser as a parameter \<open>url_parse\<close>;
  \<open>url_Parse\<close> below is the one to run it with.
\<close>

definition is_alpha :: "char \<Rightarrow> bool" where
  "is_alpha c = (c \<in> set ''abcdefghijklmnopqrstuvwxyzABCDEFGHIJKLMNOPQRSTUVWXYZ'')"

definition is_digit :: "char \<Rightarrow> bool" where
  "is_digit c = (c \<in> set ''0123456789'')"

definition ishex :: "char \<Rightarrow> bool" where
  "ishex c = (c \<in> set ''0123456789abcdefABCDEF'')"

text \<open>The four bits of a hexadecimal digit, least significant first.\<close>

definition unhex :: "char \<Rightarrow> bool \<times> bool \<times> bool \<times> bool" where
  "unhex c =
     (case map_of
        [(CHR ''0'', (False, False, False, False)), (CHR ''1'', (True, False, False, False)),
         (CHR ''2'', (False, True, False, False)), (CHR ''3'', (True, True, False, False)),
         (CHR ''4'', (False, False, True, False)), (CHR ''5'', (True, False, True, False)),
         (CHR ''6'', (False, True, True, False)), (CHR ''7'', (True, True, True, False)),
         (CHR ''8'', (False, False, False, True)), (CHR ''9'', (True, False, False, True)),
         (CHR ''a'', (False, True, False, True)), (CHR ''b'', (True, True, False, True)),
         (CHR ''c'', (False, False, True, True)), (CHR ''d'', (True, False, True, True)),
         (CHR ''e'', (False, True, True, True)), (CHR ''f'', (True, True, True, True)),
         (CHR ''A'', (False, True, False, True)), (CHR ''B'', (True, True, False, True)),
         (CHR ''C'', (False, False, True, True)), (CHR ''D'', (True, False, True, True)),
         (CHR ''E'', (False, True, True, True)), (CHR ''F'', (True, True, True, True))] c
      of Some bits \<Rightarrow> bits | None \<Rightarrow> (False, False, False, False))"

definition unhex_byte :: "char \<Rightarrow> char \<Rightarrow> char" where
  "unhex_byte hi lo =
     (case (unhex hi, unhex lo) of
        ((h0, h1, h2, h3), (l0, l1, l2, l3)) \<Rightarrow> Char l0 l1 l2 l3 h0 h1 h2 h3)"

definition strings_ToLower :: "string \<Rightarrow> string" where
  "strings_ToLower s =
     map (\<lambda>c. case map_of (zip ''ABCDEFGHIJKLMNOPQRSTUVWXYZ'' ''abcdefghijklmnopqrstuvwxyz'') c
               of Some l \<Rightarrow> l | None \<Rightarrow> c) s"

definition stringContainsCTLByte :: "string \<Rightarrow> bool" where
  "stringContainsCTLByte s = list_ex (\<lambda>b. (of_char b :: nat) < 32 \<or> b = CHR 0x7F) s"

text \<open>
  \<open>getScheme\<close>: the loop over the bytes of \<open>rawURL\<close>, at index \<open>i\<close> with the bytes
  from \<open>i\<close> on still to read. The result is the scheme and the rest.
\<close>

fun getScheme_loop :: "string \<Rightarrow> nat \<Rightarrow> string \<Rightarrow> error + string \<times> string" where
  "getScheme_loop rawURL i [] = Inr ([], rawURL)"
| "getScheme_loop rawURL i (c # cs) =
     (if is_alpha c then getScheme_loop rawURL (Suc i) cs
      else if is_digit c \<or> c = CHR ''+'' \<or> c = CHR ''-'' \<or> c = CHR ''.'' then
        (if i = 0 then Inr ([], rawURL) else getScheme_loop rawURL (Suc i) cs)
      else if c = CHR '':'' then
        (if i = 0 then Inl (errors_New ''missing protocol scheme'')
         else Inr (take i rawURL, drop (Suc i) rawURL))
      else Inr ([], rawURL))"

definition getScheme :: "string \<Rightarrow> error + string \<times> string" where
  "getScheme rawURL = getScheme_loop rawURL 0 rawURL"

datatype encoding =
    encodePath | encodePathSegment | encodeHost | encodeZone
  | encodeUserPassword | encodeQueryComponent | encodeFragment

text \<open>\<open>shouldEscape c encodeHost\<close>, the only mode in which \<open>unescape\<close> asks.\<close>

definition shouldEscape_host :: "char \<Rightarrow> bool" where
  "shouldEscape_host c =
     (\<not> (is_alpha c \<or> is_digit c
         \<or> c \<in> set ([CHR 0x21, CHR ''$'', CHR ''&'', CHR 0x27, CHR ''('', CHR '')'', CHR ''*'',
                       CHR ''+'', CHR '','', CHR '';'', CHR ''='', CHR '':'', CHR ''['', CHR '']'',
                       CHR ''<'', CHR ''>'', CHR 0x22])
         \<or> c \<in> set ''-_.~''))"

text \<open>
  \<open>unescape\<close> checks the percent escapes of \<open>s\<close> and the bytes a host may hold, and
  decodes: \<open>%XX\<close> to its byte and, in a query component only, \<open>+\<close> to a space. The
  first offending position decides the error.
\<close>

fun unescape :: "string \<Rightarrow> encoding \<Rightarrow> error + string" where
  "unescape [] mode = Inr []"
| "unescape (c # cs) mode =
     (if c = CHR ''%'' then
        (case cs of
           h1 # h2 # rest \<Rightarrow>
             (if \<not> ishex h1 \<or> \<not> ishex h2 then Inl (url_EscapeError [c, h1, h2])
              else if mode = encodeHost \<and> h1 \<in> set ''01234567'' \<and> [h1, h2] \<noteq> ''25''
                then Inl (url_EscapeError [c, h1, h2])
              else if mode = encodeZone \<and> [h1, h2] \<noteq> ''25'' \<and> unhex_byte h1 h2 \<noteq> CHR '' ''
                      \<and> shouldEscape_host (unhex_byte h1 h2)
                then Inl (url_EscapeError [c, h1, h2])
              else (case unescape rest mode of
                      Inl err \<Rightarrow> Inl err
                    | Inr t \<Rightarrow> Inr (unhex_byte h1 h2 # t)))
         | _ \<Rightarrow> Inl (url_EscapeError (c # cs)))
      else if (mode = encodeHost \<or> mode = encodeZone) \<and> (of_char c :: nat) < 128
              \<and> shouldEscape_host c
        then Inl (url_InvalidHostError [c])
      else (case unescape cs mode of
              Inl err \<Rightarrow> Inl err
            | Inr t \<Rightarrow>
                Inr ((if c = CHR ''+'' \<and> mode = encodeQueryComponent then CHR '' '' else c) # t)))"

definition validOptionalPort :: "string \<Rightarrow> bool" where
  "validOptionalPort port =
     (case port of [] \<Rightarrow> True | c # ds \<Rightarrow> c = CHR '':'' \<and> list_all is_digit ds)"

definition validUserinfo :: "string \<Rightarrow> bool" where
  "validUserinfo s =
     list_all (\<lambda>r. is_alpha r \<or> is_digit r
                 \<or> r \<in> set ([CHR ''-'', CHR ''.'', CHR ''_'', CHR '':'', CHR ''~'', CHR 0x21,
                               CHR ''$'', CHR ''&'', CHR 0x27, CHR ''('', CHR '')'', CHR ''*'',
                               CHR ''+'', CHR '','', CHR '';'', CHR ''='', CHR ''%'', CHR ''@''])) s"

definition parseHost :: "string \<Rightarrow> error + string" where
  "parseHost host =
     (if strings_HasPrefix host ''['' then
        (case strings_LastIndexByte host (CHR '']'') of
           None \<Rightarrow> Inl (errors_New (''missing '' @ [CHR 0x27] @ '']'' @ [CHR 0x27] @ '' in host''))
         | Some i \<Rightarrow>
             (if \<not> validOptionalPort (drop (Suc i) host)
                then Inl (fmt_Errorf ''invalid port %q after host'' [Str (drop (Suc i) host)])
              else
                (case strings_Index (take i host) ''%25'' of
                   Some zone \<Rightarrow>
                     (case unescape (take zone host) encodeHost of
                        Inl err \<Rightarrow> Inl err
                      | Inr host1 \<Rightarrow>
                          (case unescape (drop zone (take i host)) encodeZone of
                             Inl err \<Rightarrow> Inl err
                           | Inr host2 \<Rightarrow>
                               (case unescape (drop i host) encodeHost of
                                  Inl err \<Rightarrow> Inl err
                                | Inr host3 \<Rightarrow> Inr (host1 @ host2 @ host3))))
                 | None \<Rightarrow> unescape host encodeHost)))
      else
        (case strings_LastIndexByte host (CHR '':'') of
           Some i \<Rightarrow>
             (if \<not> validOptionalPort (drop i host)
                then Inl (fmt_Errorf ''invalid port %q after host'' [Str (drop i host)])
              else unescape host encodeHost)
         | None \<Rightarrow> unescape host encodeHost))"

definition parseUserinfo :: "string \<Rightarrow> error + Userinfo" where
  "parseUserinfo userinfo =
     (if \<not> validUserinfo userinfo then Inl (errors_New ''net/url: invalid userinfo'')
      else if CHR '':'' \<notin> set userinfo then
        (case unescape userinfo encodeUserPassword of
           Inl err \<Rightarrow> Inl err
         | Inr u \<Rightarrow> Inr \<lparr>username = u, password = [], passwordSet = False\<rparr>)
      else
        (case strings_Cut userinfo (CHR '':'') of
           (u0, p0, _) \<Rightarrow>
             (case unescape u0 encodeUserPassword of
                Inl err \<Rightarrow> Inl err
              | Inr u \<Rightarrow>
                  (case unescape p0 encodeUserPassword of
                     Inl err \<Rightarrow> Inl err
                   | Inr p \<Rightarrow> Inr \<lparr>username = u, password = p, passwordSet = True\<rparr>))))"

definition parseAuthority :: "string \<Rightarrow> error + Userinfo option \<times> string" where
  "parseAuthority authority =
     (case strings_LastIndexByte authority (CHR ''@'') of
        None \<Rightarrow>
          (case parseHost authority of Inl err \<Rightarrow> Inl err | Inr host \<Rightarrow> Inr (None, host))
      | Some i \<Rightarrow>
          (case parseHost (drop (Suc i) authority) of
             Inl err \<Rightarrow> Inl err
           | Inr host \<Rightarrow>
               (case parseUserinfo (take i authority) of
                  Inl err \<Rightarrow> Inl err
                | Inr user \<Rightarrow> Inr (Some user, host))))"

definition empty_URL :: URL where
  "empty_URL = \<lparr>Scheme = [], Opaque = [], User = None, Host = [], Path = [],
                OmitHost = False, ForceQuery = False, RawQuery = [], Fragment = []\<rparr>"

definition setPath :: "URL \<Rightarrow> string \<Rightarrow> error + URL" where
  "setPath u p =
     (case unescape p encodePath of Inl err \<Rightarrow> Inl err | Inr path \<Rightarrow> Inr (u\<lparr>Path := path\<rparr>))"

text \<open>\<open>parse(rawURL, viaRequest)\<close> with \<open>viaRequest = false\<close>, as \<open>Parse\<close> calls it.\<close>

definition parse :: "string \<Rightarrow> error + URL" where
  "parse rawURL =
     (if stringContainsCTLByte rawURL
        then Inl (errors_New ''net/url: invalid control character in URL'')
      else if rawURL = ''*'' then Inr (empty_URL\<lparr>Path := ''*''\<rparr>)
      else
        (case getScheme rawURL of
           Inl err \<Rightarrow> Inl err
         | Inr (scheme0, rest0) \<Rightarrow>
             (let scheme = strings_ToLower scheme0;
                  force = (strings_HasSuffix rest0 ''?'' \<and> count_list rest0 (CHR ''?'') = 1);
                  rest1 = (if force then butlast rest0 else fst (strings_Cut rest0 (CHR ''?'')));
                  query = (if force then [] else fst (snd (strings_Cut rest0 (CHR ''?''))));
                  url = empty_URL\<lparr>Scheme := scheme, ForceQuery := force, RawQuery := query\<rparr>
              in
                if \<not> strings_HasPrefix rest1 ''/'' \<and> scheme \<noteq> [] then Inr (url\<lparr>Opaque := rest1\<rparr>)
                else if \<not> strings_HasPrefix rest1 ''/''
                        \<and> CHR '':'' \<in> set (fst (strings_Cut rest1 (CHR ''/'')))
                  then Inl (errors_New ''first path segment in URL cannot contain colon'')
                else if (scheme \<noteq> [] \<or> \<not> strings_HasPrefix rest1 ''///'')
                        \<and> strings_HasPrefix rest1 ''//''
                  then
                    (let authority = takeWhile (\<lambda>c. c \<noteq> CHR ''/'') (drop 2 rest1);
                         rest = dropWhile (\<lambda>c. c \<noteq> CHR ''/'') (drop 2 rest1)
                     in case parseAuthority authority of
                          Inl err \<Rightarrow> Inl err
                        | Inr (user, host) \<Rightarrow> setPath (url\<lparr>User := user, Host := host\<rparr>) rest)
                else if scheme \<noteq> [] \<and> strings_HasPrefix rest1 ''/''
                  then setPath (url\<lparr>OmitHost := True\<rparr>) rest1
                else setPath url rest1)))"

definition url_Parse :: "string \<Rightarrow> error + URL" where
  "url_Parse rawURL =
     (case strings_Cut rawURL (CHR ''#'') of
        (u, frag, _) \<Rightarrow>
          (case parse u of
             Inl err \<Rightarrow> Inl (url_Error ''parse'' u err)
           | Inr url \<Rightarrow>
               (if frag = [] then Inr url
                else (case unescape frag encodeFragment of
                        Inl err \<Rightarrow> Inl (url_Error ''parse'' rawURL err)
                      | Inr f \<Rightarrow> Inr (url\<lparr>Fragment := f\<rparr>)))))"

subsection \<open>Packages context and net/http\<close>

text \<open>
  A \<open>context.Context\<close> is kept as its time limit, in nanoseconds from its creation,
  \<open>None\<close> when it has none. A \<open>time.Duration\<close> counts nanoseconds.
\<close>

record context_Context =
  timeout :: "nat option"

definition time_Second :: nat where
  "time_Second = 1000000000"

definition context_Background :: context_Context where
  "context_Background = \<lparr>timeout = None\<rparr>"

definition context_WithTimeout :: "context_Context \<Rightarrow> nat \<Rightarrow> context_Context" where
  "context_WithTimeout parent d =
     \<lparr>timeout = Some (case timeout parent of None \<Rightarrow> d | Some p \<Rightarrow> min p d)\<rparr>"

text \<open>
  A request, with the reader \<open>'r\<close> of its body, and a response. The field \<open>Body\<close> of a
  response is what \<open>io.ReadAll\<close> makes of the body: an error, or all its bytes.
\<close>

record 'r Request =
  ctx :: context_Context
  Method :: string
  reqURL :: URL
  Header :: "(string \<times> string list) list"
  reqBody :: 'r

record Response =
  Status :: string
  StatusCode :: int
  Body :: "error + string"

type_synonym 'r http_Client = "'r Request \<Rightarrow> error + Response"

definition http_MethodPost :: string where
  "http_MethodPost = ''POST''"

definition removeEmptyPort :: "string \<Rightarrow> string" where
  "removeEmptyPort host =
     (case strings_LastIndexByte host (CHR '':'') of
        None \<Rightarrow> host
      | Some i \<Rightarrow>
          (if (case strings_LastIndexByte host (CHR '']'') of None \<Rightarrow> True | Some j \<Rightarrow> j < i)
              \<and> strings_HasSuffix host '':''
           then butlast host else host))"

text \<open>
  \<open>http.NewRequestWithContext\<close> with a valid method and a context that is not \<open>nil\<close>:
  it fails when the URL does not parse.
\<close>

definition http_NewRequestWithContext ::
  "(string \<Rightarrow> error + URL) \<Rightarrow> context_Context \<Rightarrow> string \<Rightarrow> string \<Rightarrow> 'r \<Rightarrow> error + 'r Request" where
  "http_NewRequestWithContext url_parse ctxt method url body =
     (case url_parse url of
        Inl err \<Rightarrow> Inl err
      | Inr u \<Rightarrow>
          Inr \<lparr>ctx = ctxt, Method = method, reqURL = u\<lparr>Host := removeEmptyPort (Host u)\<rparr>,
               Header = [], reqBody = body\<rparr>)"

definition Header_Add ::
  "(string \<times> string list) list \<Rightarrow> string \<Rightarrow> string \<Rightarrow> (string \<times> string list) list" where
  "Header_Add h key value =
     (case map_of h key of
        None \<Rightarrow> h @ [(key, [value])]
      | Some vs \<Rightarrow> map (\<lambda>(k, ws). if k = key then (k, ws @ [value]) else (k, ws)) h)"

section \<open>The sender (the file that sends a message)\<close>

text \<open>
  The constant \<open>WebhookURLValidPattern\<close> is the regular expression
  \<^verbatim>\<open>^https:\/\/(?:.*\.webhook|outlook)\.office(?:365)?\.com\<close>, here in compiled form.
\<close>

definition WebhookURLValidPattern :: regexp where
  "WebhookURLValidPattern =
     OpConcat OpBeginText
       (OpConcat (literals ''https://'')
          (OpConcat (OpAlternate (OpConcat (OpStar OpAnyCharNotNL) (literals ''.webhook''))
                                 (literals ''outlook''))
             (OpConcat (literals ''.office'')
                (OpConcat (OpQuest (literals ''365'')) (literals ''.com'')))))"

definition ExpectedEndpointResponseText :: string where
  "ExpectedEndpointResponseText = ''1''"

definition WebhookSendTimeout :: nat where
  "WebhookSendTimeout = 5 * time_Second"

definition ErrWebHookURLPattern :: error where
  "ErrWebHookURLPattern = errors_New ''the webhook URL does not match the expected pattern''"

definition ErrInvalidResponseText :: error where
  "ErrInvalidResponseText = errors_New ''message unsuccessful, invalid webhook URL response text''"

text \<open>The interfaces \<open>MessageSender\<close> and \<open>teamsMessage\<close>: the methods of an implementation.\<close>

record 'r MessageSender =
  HTTPClient :: "'r http_Client"
  ValidateWebhook :: "string \<Rightarrow> error option"

record ('m, 'r) teamsMessage =
  Prepare :: "'m \<Rightarrow> error option \<times> 'm"
  Validate :: "'m \<Rightarrow> error option"
  Payload :: "'m \<Rightarrow> 'r"

record 'r TeamsClient =
  httpClient :: "'r http_Client"

text \<open>\<open>CreateTeamsClient\<close> makes a client around \<open>&http.Client{}\<close>, the network; it is given.\<close>

definition CreateTeamsClient :: "'r http_Client \<Rightarrow> 'r TeamsClient" where
  "CreateTeamsClient network = \<lparr>httpClient = network\<rparr>"

definition TeamsClient_HTTPClient :: "'r TeamsClient \<Rightarrow> 'r http_Client" where
  "TeamsClient_HTTPClient client = httpClient client"

text \<open>The loop of \<open>ValidateWebhook\<close> over the patterns, and what follows it.\<close>

fun ValidateWebhook_patterns :: "regexp list \<Rightarrow> string \<Rightarrow> URL \<Rightarrow> error option" where
  "ValidateWebhook_patterns [] webhookURL urlLink =
     Some (fmt_Errorf ''%w; got: %q'' [Err ErrWebHookURLPattern, URL_String urlLink])"
| "ValidateWebhook_patterns (thisPattern # patterns) webhookURL urlLink =
     (case regexp_MatchString thisPattern webhookURL of
        Inl err \<Rightarrow> Some err
      | Inr match \<Rightarrow>
          (if match then None else ValidateWebhook_patterns patterns webhookURL urlLink))"

definition TeamsClient_ValidateWebhook ::
  "(string \<Rightarrow> error + URL) \<Rightarrow> 'r TeamsClient \<Rightarrow> string \<Rightarrow> error option" where
  "TeamsClient_ValidateWebhook url_parse client webhookURL =
     (case url_parse webhookURL of
        Inl err \<Rightarrow>
          Some (fmt_Errorf ''could not parse webhook URL %q: %w'' [Str webhookURL, Err err])
      | Inr urlLink \<Rightarrow> ValidateWebhook_patterns [WebhookURLValidPattern] webhookURL urlLink)"

definition prepareRequest ::
  "(string \<Rightarrow> error + URL) \<Rightarrow> context_Context \<Rightarrow> string \<Rightarrow> 'r \<Rightarrow> error + 'r Request" where
  "prepareRequest url_parse ctxt webhookURL message =
     (case http_NewRequestWithContext url_parse ctxt http_MethodPost webhookURL message of
        Inl err \<Rightarrow> Inl err
      | Inr request \<Rightarrow>
          Inr (request\<lparr>Header :=
                 Header_Add (Header request) ''Content-Type'' ''application/json;charset=utf-8''\<rparr>))"

definition processResponse :: "Response \<Rightarrow> error + string" where
  "processResponse response =
     (case Body response of
        Inl err \<Rightarrow> Inl err
      | Inr responseString \<Rightarrow>
          (if StatusCode response \<ge> 299 then
             Inl (fmt_Errorf ''error on code: %v, %q'' [Str (Status response), Str responseString])
           else if responseString \<noteq> strings_TrimSpace ExpectedEndpointResponseText then
             Inl (fmt_Errorf ''got %q, expected %q: %w''
                    [Str responseString, Str ExpectedEndpointResponseText, Err ErrInvalidResponseText])
           else Inr responseString))"

text \<open>
  \<open>sendWithContext\<close> returns its error, the message as the calls left it, and the calls it
  made on the client, on the message and on its own helpers, in order. Closing the body
  of the response and the two log lines do not bear on the result and are left out.
\<close>

datatype 'r call =
    Call_ValidateWebhook string
  | Call_Validate
  | Call_Prepare
  | Call_Payload
  | Call_prepareRequest
  | Call_Do "'r Request"
  | Call_processResponse Response

definition sendWithContext ::
  "(string \<Rightarrow> error + URL) \<Rightarrow> context_Context \<Rightarrow> 'r MessageSender \<Rightarrow> ('m, 'r) teamsMessage
     \<Rightarrow> string \<Rightarrow> 'm \<Rightarrow> error option \<times> 'm \<times> 'r call list" where
  "sendWithContext url_parse ctxt client ops webhookURL message =
     (case ValidateWebhook client webhookURL of
        Some err \<Rightarrow>
          (Some (fmt_Errorf ''webhook URL validation failed: %w'' [Err err]), message,
           [Call_ValidateWebhook webhookURL])
      | None \<Rightarrow>
     (case Validate ops message of
        Some err \<Rightarrow>
          (Some (fmt_Errorf ''failed to validate message: %w'' [Err err]), message,
           [Call_ValidateWebhook webhookURL, Call_Validate])
      | None \<Rightarrow>
     (case Prepare ops message of
        (Some err, message') \<Rightarrow>
          (Some (fmt_Errorf ''failed to prepare message: %w'' [Err err]), message',
           [Call_ValidateWebhook webhookURL, Call_Validate, Call_Prepare])
      | (None, message') \<Rightarrow>
     (case prepareRequest url_parse ctxt webhookURL (Payload ops message') of
        Inl err \<Rightarrow>
          (Some (fmt_Errorf ''failed to prepare request: %w'' [Err err]), message',
           [Call_ValidateWebhook webhookURL, Call_Validate, Call_Prepare, Call_Payload,
            Call_prepareRequest])
      | Inr request \<Rightarrow>
     (case HTTPClient client request of
        Inl err \<Rightarrow>
          (Some (fmt_Errorf ''failed to send message: %w'' [Err err]), message',
           [Call_ValidateWebhook webhookURL, Call_Validate, Call_Prepare, Call_Payload,
            Call_prepareRequest, Call_Do request])
      | Inr response \<Rightarrow>
     (case processResponse response of
        Inl err \<Rightarrow>
          (Some (fmt_Errorf ''failed to process response: %w'' [Err err]), message',
           [Call_ValidateWebhook webhookURL, Call_Validate, Call_Prepare, Call_Payload,
            Call_prepareRequest, Call_Do request, Call_processResponse response])
      | Inr responseString \<Rightarrow>
          (None, message',
           [Call_ValidateWebhook webhookURL, Call_Validate, Call_Prepare, Call_Payload,
            Call_prepareRequest, Call_Do request, Call_processResponse response])))))))"

text \<open>A \<open>TeamsClient\<close> as a \<open>MessageSender\<close>, and a \<open>MessageCard\<close> as a \<open>teamsMessage\<close>.\<close>

definition TeamsClient_MessageSender ::
  "(string \<Rightarrow> error + URL) \<Rightarrow> 'r TeamsClient \<Rightarrow> 'r MessageSender" where
  "TeamsClient_MessageSender url_parse client =
     \<lparr>HTTPClient = TeamsClient_HTTPClient client,
      ValidateWebhook = TeamsClient_ValidateWebhook url_parse client\<rparr>"

definition MessageCard_teamsMessage ::
  "(string \<Rightarrow> string) \<Rightarrow> (MessageCard, Buffer option) teamsMessage" where
  "MessageCard_teamsMessage quote =
     \<lparr>Prepare = MessageCard_Prepare quote, Validate = MessageCard_Validate,
      Payload = MessageCard_Payload\<rparr>"

definition Send ::
  "(string \<Rightarrow> error + URL) \<Rightarrow> 'r TeamsClient \<Rightarrow> ('m, 'r) teamsMessage
     \<Rightarrow> string \<Rightarrow> 'm \<Rightarrow> error option \<times> 'm \<times> 'r call list" where
  "Send url_parse client ops webhookURL message =
     sendWithContext url_parse (context_WithTimeout context_Background WebhookSendTimeout)
       (TeamsClient_MessageSender url_parse client) ops webhookURL message"

section \<open>The validation of the webhook URL in the words of the specification\<close>

text \<open>
  The specification describes the accepted URLs by their parts: the scheme is \<open>https\<close> and
  the host is a subdomain of \<open>webhook.office.com\<close> or \<open>webhook.office365.com\<close>, or is
  \<open>outlook.office.com\<close> or \<open>outlook.office365.com\<close>. \<open>spec_ValidateWebhook\<close> is that
  description, to be compared with \<open>TeamsClient_ValidateWebhook\<close>.
\<close>

definition spec_webhook_host :: "string \<Rightarrow> bool" where
  "spec_webhook_host host =
     (strings_HasSuffix host ''.webhook.office.com''
      \<or> strings_HasSuffix host ''.webhook.office365.com''
      \<or> host = ''outlook.office.com'' \<or> host = ''outlook.office365.com'')"

definition spec_ValidateWebhook :: "(string \<Rightarrow> error + URL) \<Rightarrow> string \<Rightarrow> bool" where
  "spec_ValidateWebhook url_parse webhookURL =
     (case url_parse webhookURL of
        Inl err \<Rightarrow> False
      | Inr u \<Rightarrow> Scheme u = ''https'' \<and> spec_webhook_host (Host u))"

section \<open>Sample collaborators\<close>

text \<open>
  A network that cannot be reached and one that answers every request with a fixed
  response, a JSON quoting for strings that need no escape, and a message whose
  \<open>Prepare\<close> fails.
\<close>

definition network_down :: "Buffer option http_Client" where
  "network_down request = Inl (errors_New ''dial tcp: connection refused'')"

definition network_answers :: "Response \<Rightarrow> Buffer option http_Client" where
  "network_answers response request = Inr response"

definition plain_quote :: "string \<Rightarrow> string" where
  "plain_quote s = [CHR 0x22] @ s @ [CHR 0x22]"

definition unpreparable :: "(unit, Buffer option) teamsMessage" where
  "unpreparable =
     \<lparr>Prepare = (\<lambda>m. (Some (errors_New ''cannot prepare''), m)),
      Validate = (\<lambda>m. None),
      Payload = (\<lambda>m. None)\<rparr>"

section \<open>Properties of the message card\<close>

lemma Prepare_result:
  "MessageCard_Prepare q mc =
     (None, mc\<lparr>payload := Some \<lparr>buf = encodeFields q (CHR ''{'') (MessageCard_fields mc), off = 0\<rparr>\<rparr>)"
  by (cases "payload mc")
     (simp_all add: MessageCard_Prepare_def json_Marshal_def Buffer_Write_def Buffer_Reset_def)

lemma fields_payload_update [simp]:
  "MessageCard_fields (mc\<lparr>payload := p\<rparr>) = MessageCard_fields mc"
  by (simp add: MessageCard_fields_def)

text \<open>
  C3. \<open>Validate\<close> returns no error exactly when \<open>Title\<close> and \<open>Text\<close> are both
  non-empty. An empty \<open>Title\<close> gives the title-required error, a non-empty \<open>Title\<close>
  with an empty \<open>Text\<close> gives the text-required error, the two errors differ, and the
  result depends on no field but these two: two cards that agree on \<open>Title\<close> and
  \<open>Text\<close> validate alike, and changing \<open>Color\<close> changes nothing.
\<close>

theorem Validate_title_and_text:
  "(MessageCard_Validate mc = None \<longleftrightarrow> Title mc \<noteq> [] \<and> Text mc \<noteq> [])
   \<and> (Title mc = [] \<longrightarrow> MessageCard_Validate mc = Some ErrTitleRequired)
   \<and> (Title mc \<noteq> [] \<and> Text mc = [] \<longrightarrow> MessageCard_Validate mc = Some ErrTextRequired)
   \<and> ErrTitleRequired \<noteq> ErrTextRequired
   \<and> (Title mc' = Title mc \<and> Text mc' = Text mc
        \<longrightarrow> MessageCard_Validate mc' = MessageCard_Validate mc)
   \<and> MessageCard_Validate (mc\<lparr>Color := co\<rparr>) = MessageCard_Validate mc"
  by (simp add: MessageCard_Validate_def ErrTitleRequired_def ErrTextRequired_def)

theorem Validate_title_and_text_witness:
  "MessageCard_Validate (CreateMessageCard\<lparr>Title := ''Build'', Text := ''passed''\<rparr>) = None
   \<and> MessageCard_Validate (CreateMessageCard\<lparr>Text := ''passed''\<rparr>) = Some ErrTitleRequired
   \<and> MessageCard_Validate (CreateMessageCard\<lparr>Title := ''Build''\<rparr>) = Some ErrTextRequired
   \<and> MessageCard_Validate (CreateMessageCard\<lparr>Title := ''Build'', Text := ''passed'', Color := ''red''\<rparr>)
       = None"
proof -
  let ?ok = "CreateMessageCard\<lparr>Title := ''Build'', Text := ''passed''\<rparr>"
  let ?red = "CreateMessageCard\<lparr>Title := ''Build'', Text := ''passed'', Color := ''red''\<rparr>"
  have ok: "MessageCard_Validate ?ok = None"
    using Validate_title_and_text [of ?ok ?ok "[]"] by (simp add: CreateMessageCard_def)
  have red: "MessageCard_Validate ?red = MessageCard_Validate ?ok"
    using Validate_title_and_text [of ?ok ?red "[]"] by (simp add: CreateMessageCard_def)
  have no_title: "MessageCard_Validate (CreateMessageCard\<lparr>Text := ''passed''\<rparr>) = Some ErrTitleRequired"
    using Validate_title_and_text [of "CreateMessageCard\<lparr>Text := ''passed''\<rparr>" ?ok "[]"]
    by (simp add: CreateMessageCard_def)
  have no_text: "MessageCard_Validate (CreateMessageCard\<lparr>Title := ''Build''\<rparr>) = Some ErrTextRequired"
    using Validate_title_and_text [of "CreateMessageCard\<lparr>Title := ''Build''\<rparr>" ?ok "[]"]
    by (simp add: CreateMessageCard_def)
  from ok red no_title no_text show ?thesis by simp
qed

text \<open>
  C9. The title is checked before the text: a card whose \<open>Title\<close> and \<open>Text\<close> are both
  empty gets the title-required error, and a card with an empty \<open>Title\<close> never gets the
  text-required error, whatever its \<open>Text\<close>.
\<close>

theorem Validate_title_error_first:
  "(Title mc = [] \<and> Text mc = [] \<longrightarrow> MessageCard_Validate mc = Some ErrTitleRequired)
   \<and> (Title mc = [] \<longrightarrow> MessageCard_Validate mc \<noteq> Some ErrTextRequired)"
  by (simp add: MessageCard_Validate_def ErrTitleRequired_def ErrTextRequired_def)

theorem Validate_title_error_first_witness:
  "MessageCard_Validate CreateMessageCard = Some ErrTitleRequired
   \<and> MessageCard_Validate CreateMessageCard \<noteq> Some ErrTextRequired"
  using Validate_title_error_first [of CreateMessageCard]
  by (simp add: CreateMessageCard_def ErrTitleRequired_def ErrTextRequired_def)

text \<open>
  C7. \<open>Prepare\<close> rebuilds the payload from the fields: it never fails, and after it
  the buffer holds exactly the bytes of \<open>json.Marshal\<close> of the card with the read offset
  at 0, whatever the buffer held before. A second \<open>Prepare\<close> with the fields unchanged
  gives the same result and the same card as the first one: the bytes are replaced, not
  appended.
\<close>

theorem Prepare_twice_same_payload:
  "MessageCard_Prepare q (snd (MessageCard_Prepare q mc)) = MessageCard_Prepare q mc
   \<and> fst (MessageCard_Prepare q mc) = None
   \<and> (\<exists>jsonMessage. json_Marshal q mc = Inr jsonMessage
        \<and> payload (snd (MessageCard_Prepare q mc)) = Some \<lparr>buf = jsonMessage, off = 0\<rparr>
        \<and> payload (snd (MessageCard_Prepare q (snd (MessageCard_Prepare q mc))))
            = Some \<lparr>buf = jsonMessage, off = 0\<rparr>)"
  by (simp add: Prepare_result json_Marshal_def)

text \<open>
  C6. For a card made by \<open>CreateMessageCard\<close>, with any \<open>Title\<close>, \<open>Text\<close> and
  \<open>Color\<close> set afterwards and any earlier payload, \<open>Prepare\<close> succeeds and the payload
  is one JSON object: the key \<open>@type\<close> with the constant \<open>MessageCard\<close>, the key
  \<open>@context\<close> with the constant \<open>https://schema.org/extensions\<close>, then the keys
  \<open>title\<close>, \<open>text\<close> and \<open>color\<close>, each present exactly when its field is
  non-empty and each holding the field's own string, rendered as a JSON string literal by
  the encoder's quoting \<open>q\<close>.
\<close>

theorem Prepare_payload_schema:
  \<open>MessageCard_Prepare q (CreateMessageCard\<lparr>Title := t, Text := x, Color := c, payload := p\<rparr>) =
     (None, CreateMessageCard\<lparr>Title := t, Text := x, Color := c, payload := Some
        \<lparr>buf = ''{"@type":'' @ q ''MessageCard''
               @ '',"@context":'' @ q ''https://schema.org/extensions''
               @ (if t = [] then [] else '',"title":'' @ q t)
               @ (if x = [] then [] else '',"text":'' @ q x)
               @ (if c = [] then [] else '',"color":'' @ q c)
               @ ''}'',
         off = 0\<rparr>\<rparr>)\<close>
  by (simp add: Prepare_result MessageCard_fields_def CreateMessageCard_def)

text \<open>
  With the plain quoting, a card with a title and a text and no colour is written as
  follows.
\<close>

lemma Prepare_payload_example:
  \<open>payload (snd (MessageCard_Prepare plain_quote
       (CreateMessageCard\<lparr>Title := ''Build'', Text := ''passed''\<rparr>))) =
     Some \<lparr>buf = ''{"@type":"MessageCard","@context":"https://schema.org/extensions","title":"Build","text":"passed"}'',
           off = 0\<rparr>\<close>
  by (simp add: Prepare_result MessageCard_fields_def CreateMessageCard_def plain_quote_def)

section \<open>The matcher against the languages of expressions\<close>

lemma lang_mono: "lang False r \<subseteq> lang b r"
proof (induction r arbitrary: b)
  case (OpConcat r s)
  show ?case
  proof
    fix w assume "w \<in> lang False (OpConcat r s)"
    then obtain u v where w: "w = u @ v" "u \<in> lang False r" "v \<in> lang False s" by auto
    from w(2) OpConcat.IH(1) have "u \<in> lang b r" by blast
    moreover from w(3) OpConcat.IH(2) have "v \<in> lang (b \<and> u = []) s" by blast
    ultimately show "w \<in> lang b (OpConcat r s)" using w(1) by auto
  qed
next
  case (OpStar r)
  then show ?case by auto
qed auto

lemma nullable_lang: "nullable b r \<longleftrightarrow> [] \<in> lang b r"
  by (induction r arbitrary: b) (auto intro: star.star_Nil)

lemma lang_concat' [simp]: "lang b (concat' r s) = lang b (OpConcat r s)"
  by (cases "(r, s)" rule: concat'.cases) auto

lemma lang_alternate' [simp]: "lang b (alternate' r s) = lang b (OpAlternate r s)"
  by (cases "(r, s)" rule: alternate'.cases) auto

lemma star_Cons:
  "w \<in> star A \<Longrightarrow> w = c # t \<Longrightarrow> \<exists>u v. t = u @ v \<and> c # u \<in> A \<and> v \<in> star A"
proof (induction arbitrary: t rule: star.induct)
  case star_Nil
  then show ?case by simp
next
  case (star_app u v)
  show ?case
  proof (cases u)
    case Nil
    with star_app show ?thesis by simp
  next
    case (Cons d u')
    with star_app.prems have "d = c" "t = u' @ v" by simp_all
    with star_app.hyps Cons show ?thesis by blast
  qed
qed

lemma lang_OpStar_False: "lang False (OpStar r) = star (lang False r)"
proof
  show "lang False (OpStar r) \<subseteq> star (lang False r)"
    by (auto intro: star.star_app)
  show "star (lang False r) \<subseteq> lang False (OpStar r)"
    by auto
qed

lemma Cons_in_concat:
  "{w. c # w \<in> {u @ v | u v. u \<in> A \<and> v \<in> B u}}
   = {u @ v | u v. c # u \<in> A \<and> v \<in> B (c # u)}
     \<union> (if [] \<in> A then {w. c # w \<in> B []} else {})"
  (is "?L = ?R")
proof
  show "?L \<subseteq> ?R"
  proof
    fix w assume "w \<in> ?L"
    then obtain u v where uv: "c # w = u @ v" "u \<in> A" "v \<in> B u" by blast
    show "w \<in> ?R"
    proof (cases u)
      case Nil
      with uv show ?thesis by simp
    next
      case (Cons d u')
      with uv have "d = c" "w = u' @ v" by simp_all
      with uv(2,3) Cons show ?thesis by blast
    qed
  qed
  show "?R \<subseteq> ?L"
  proof
    fix w assume "w \<in> ?R"
    then consider u v where "w = u @ v" "c # u \<in> A" "v \<in> B (c # u)"
      | "[] \<in> A" "c # w \<in> B []"
      by (cases "[] \<in> A") auto
    then show "w \<in> ?L"
    proof cases
      case 1
      from 1(1) have "c # w = (c # u) @ v" by simp
      with 1(2,3) show ?thesis by blast
    next
      case 2
      have "c # w = [] @ (c # w)" by simp
      with 2 show ?thesis by blast
    qed
  qed
qed

lemma lang_deriv_OpConcat:
  assumes "\<And>b. lang False (deriv b c r) = {w. c # w \<in> lang b r}"
    and "\<And>b. lang False (deriv b c s) = {w. c # w \<in> lang b s}"
  shows "lang False (deriv b c (OpConcat r s)) = {w. c # w \<in> lang b (OpConcat r s)}"
proof -
  have "{w. c # w \<in> lang b (OpConcat r s)}
        = {u @ v | u v. c # u \<in> lang b r \<and> v \<in> lang False s}
          \<union> (if [] \<in> lang b r then {w. c # w \<in> lang b s} else {})"
    using Cons_in_concat [of c "lang b r" "\<lambda>u. lang (b \<and> u = []) s"] by simp
  moreover have "lang False (deriv b c (OpConcat r s))
        = {u @ v | u v. u \<in> lang False (deriv b c r) \<and> v \<in> lang False s}
          \<union> (if nullable b r then lang False (deriv b c s) else {})"
    by simp
  ultimately show ?thesis
    by (simp only: assms nullable_lang mem_Collect_eq)
qed

lemma lang_deriv_OpStar:
  assumes "\<And>b. lang False (deriv b c r) = {w. c # w \<in> lang b r}"
  shows "lang False (deriv b c (OpStar r)) = {w. c # w \<in> lang b (OpStar r)}"
proof -
  have "{w. c # w \<in> lang b (OpStar r)}
        = {u @ v | u v. c # u \<in> lang b r \<and> v \<in> star (lang False r)}"
    (is "?L = ?R")
  proof
    show "?L \<subseteq> ?R"
    proof
      fix w assume "w \<in> ?L"
      then obtain u v where uv: "c # w = u @ v" "u = [] \<or> u \<in> lang b r" "v \<in> star (lang False r)"
        by auto
      show "w \<in> ?R"
      proof (cases u)
        case Nil
        with uv have "c # w \<in> star (lang False r)" by simp
        from star_Cons [OF this refl] obtain u' v' where
          "w = u' @ v'" "c # u' \<in> lang False r" "v' \<in> star (lang False r)" by blast
        with lang_mono [of r b] show ?thesis by blast
      next
        case (Cons d u')
        with uv have "d = c" "w = u' @ v" "c # u' \<in> lang b r" by auto
        with uv(3) show ?thesis by blast
      qed
    qed
    show "?R \<subseteq> ?L"
    proof
      fix w assume "w \<in> ?R"
      then obtain u v where "w = u @ v" "c # u \<in> lang b r" "v \<in> star (lang False r)" by blast
      then have "c # w = (c # u) @ v" "c # u \<in> insert [] (lang b r)" "v \<in> star (lang False r)"
        by simp_all
      then have "\<exists>u' v'. c # w = u' @ v' \<and> u' \<in> insert [] (lang b r) \<and> v' \<in> star (lang False r)"
        by blast
      then show "w \<in> ?L" by simp
    qed
  qed
  moreover have "lang False (deriv b c (OpStar r))
        = {u @ v | u v. u \<in> lang False (deriv b c r) \<and> v \<in> star (lang False r)}"
    using lang_OpStar_False [of r] by (simp del: lang.simps(8))
  ultimately show ?thesis
    by (simp only: assms mem_Collect_eq)
qed

lemma lang_deriv: "lang False (deriv b c r) = {w. c # w \<in> lang b r}"
proof (induction r arbitrary: b)
  case (OpConcat r s)
  then show ?case by (rule lang_deriv_OpConcat)
next
  case (OpStar r)
  then show ?case by (rule lang_deriv_OpStar)
next
  case (OpAlternate r s)
  then show ?case by auto
next
  case (OpQuest r)
  then show ?case by auto
next
  case OpAnyCharNotNL
  show ?case by auto
qed simp_all

lemma match_here_lang: "match_here b r s \<longleftrightarrow> (\<exists>p t. s = p @ t \<and> p \<in> lang b r)"
proof (induction s arbitrary: b r)
  case Nil
  then show ?case by (simp add: nullable_lang)
next
  case (Cons c cs)
  have "(\<exists>p t. c # cs = p @ t \<and> p \<in> lang b r)
        \<longleftrightarrow> [] \<in> lang b r \<or> (\<exists>p t. cs = p @ t \<and> c # p \<in> lang b r)"
    by (auto simp: Cons_eq_append_conv)
  then show ?case
    by (simp add: Cons.IH nullable_lang lang_deriv)
qed

lemma match_anywhere_lang:
  "match_anywhere b r s \<longleftrightarrow> (\<exists>u p t. s = u @ p @ t \<and> p \<in> lang (b \<and> u = []) r)"
proof (induction s arbitrary: b)
  case Nil
  then show ?case by (simp add: nullable_lang)
next
  case (Cons c cs)
  have "(\<exists>u p t. c # cs = u @ p @ t \<and> p \<in> lang (b \<and> u = []) r)
        \<longleftrightarrow> (\<exists>p t. c # cs = p @ t \<and> p \<in> lang b r)
            \<or> (\<exists>u p t. cs = u @ p @ t \<and> p \<in> lang False r)"
    (is "?A \<longleftrightarrow> ?B \<or> ?C")
  proof
    assume ?A
    then obtain u p t where h: "c # cs = u @ p @ t" "p \<in> lang (b \<and> u = []) r" by blast
    show "?B \<or> ?C"
    proof (cases u)
      case Nil
      with h show ?thesis by auto
    next
      case (Cons d u')
      with h have "cs = u' @ p @ t" "p \<in> lang False r" by simp_all
      then show ?thesis by blast
    qed
  next
    assume "?B \<or> ?C"
    then show ?A
    proof
      assume ?B
      then obtain p t where "c # cs = [] @ p @ t" "p \<in> lang (b \<and> ([]::string) = []) r" by auto
      then show ?A by blast
    next
      assume ?C
      then obtain u p t where "c # cs = (c # u) @ p @ t" "p \<in> lang (b \<and> c # u = []) r" by auto
      then show ?A by blast
    qed
  qed
  then show ?case
    using Cons.IH [of False] by (simp add: match_here_lang del: match_here.simps)
qed

lemma match_anywhere_anchored:
  assumes "lang False r = {}"
  shows "match_anywhere True r s \<longleftrightarrow> (\<exists>p t. s = p @ t \<and> p \<in> lang True r)"
proof
  assume "match_anywhere True r s"
  then obtain u p t where h: "s = u @ p @ t" "p \<in> lang (u = []) r"
    by (auto simp: match_anywhere_lang)
  have "u = []"
  proof (rule ccontr)
    assume "u \<noteq> []"
    with h(2) have "p \<in> lang False r" by simp
    with assms show False by simp
  qed
  with h show "\<exists>p t. s = p @ t \<and> p \<in> lang True r" by auto
next
  assume "\<exists>p t. s = p @ t \<and> p \<in> lang True r"
  then obtain p t where "s = [] @ p @ t" "p \<in> lang (True \<and> ([]::string) = []) r" by auto
  then have "\<exists>u p t. s = u @ p @ t \<and> p \<in> lang (True \<and> u = []) r" by blast
  then show "match_anywhere True r s" by (simp only: match_anywhere_lang)
qed

lemma lang_literals [simp]: "lang b (literals w) = {w}"
  by (induction w arbitrary: b) auto

lemma star_no_newline: "star {[c] | c. c \<noteq> CHR 0x0A} = {x. CHR 0x0A \<notin> set x}"
proof
  show "star {[c] | c. c \<noteq> CHR 0x0A} \<subseteq> {x. CHR 0x0A \<notin> set x}"
  proof
    fix x assume "x \<in> star {[c] | c. c \<noteq> CHR 0x0A}"
    then show "x \<in> {x. CHR 0x0A \<notin> set x}"
      by (induction rule: star.induct) auto
  qed
  show "{x. CHR 0x0A \<notin> set x} \<subseteq> star {[c] | c. c \<noteq> CHR 0x0A}"
  proof
    fix x :: string assume "x \<in> {x. CHR 0x0A \<notin> set x}"
    then have "CHR 0x0A \<notin> set x" by simp
    then show "x \<in> star {[c] | c. c \<noteq> CHR 0x0A}"
    proof (induction x)
      case Nil
      show ?case by (rule star.star_Nil)
    next
      case (Cons c cs)
      then have "[c] \<in> {[c] | c. c \<noteq> CHR 0x0A}" "cs \<in> star {[c] | c. c \<noteq> CHR 0x0A}" by auto
      then have "[c] @ cs \<in> star {[c] | c. c \<noteq> CHR 0x0A}" by (rule star.star_app)
      then show ?case by simp
    qed
  qed
qed

lemma lang_OpStar_OpAnyCharNotNL: "lang b (OpStar OpAnyCharNotNL) = {x. CHR 0x0A \<notin> set x}"
proof -
  have unfold: "lang b (OpStar OpAnyCharNotNL)
      = {u @ v | u v. (u = [] \<or> (\<exists>c. u = [c] \<and> c \<noteq> CHR 0x0A)) \<and> CHR 0x0A \<notin> set v}"
    by (simp add: star_no_newline)
  show ?thesis
  proof
    show "lang b (OpStar OpAnyCharNotNL) \<subseteq> {x. CHR 0x0A \<notin> set x}"
      unfolding unfold by auto
    show "{x. CHR 0x0A \<notin> set x} \<subseteq> lang b (OpStar OpAnyCharNotNL)"
    proof
      fix x :: string assume "x \<in> {x. CHR 0x0A \<notin> set x}"
      then have "x = [] @ x \<and> CHR 0x0A \<notin> set x" by simp
      then show "x \<in> lang b (OpStar OpAnyCharNotNL)"
        unfolding unfold by blast
    qed
  qed
qed

lemma lang_OpConcat_literals:
  "lang b (OpConcat (literals (c # cs)) r) = {(c # cs) @ v | v. v \<in> lang False r}"
  by (auto simp del: literals.simps simp add: lang_literals)

lemma lang_host_alternatives:
  "lang b (OpAlternate (OpConcat (OpStar OpAnyCharNotNL) (literals ''.webhook'')) (literals ''outlook''))
   = {mid. mid = ''outlook'' \<or> (\<exists>x. mid = x @ ''.webhook'' \<and> CHR 0x0A \<notin> set x)}"
  by (auto simp del: literals.simps lang.simps(8) simp add: lang_literals lang_OpStar_OpAnyCharNotNL)

lemma lang_domain_tail:
  "lang False (OpConcat (literals ''.office'') (OpConcat (OpQuest (literals ''365'')) (literals ''.com'')))
   = {''.office'' @ opt @ ''.com'' | opt. opt = [] \<or> opt = ''365''}"
  by (auto simp del: literals.simps simp add: lang_literals)

lemma lang_WebhookURLValidPattern:
  "lang b WebhookURLValidPattern =
     (if b then {''https://'' @ mid @ ''.office'' @ opt @ ''.com'' | mid opt.
                   (mid = ''outlook'' \<or> (\<exists>x. mid = x @ ''.webhook'' \<and> CHR 0x0A \<notin> set x))
                   \<and> (opt = [] \<or> opt = ''365'')}
      else {})"
proof -
  let ?host = "OpAlternate (OpConcat (OpStar OpAnyCharNotNL) (literals ''.webhook'')) (literals ''outlook'')"
  let ?tail = "OpConcat (literals ''.office'') (OpConcat (OpQuest (literals ''365'')) (literals ''.com''))"
  have rest: "lang False (OpConcat ?host ?tail)
      = {mid @ ''.office'' @ opt @ ''.com'' | mid opt.
           (mid = ''outlook'' \<or> (\<exists>x. mid = x @ ''.webhook'' \<and> CHR 0x0A \<notin> set x))
           \<and> (opt = [] \<or> opt = ''365'')}"
  proof -
    have "lang False (OpConcat ?host ?tail) = {u @ v | u v. u \<in> lang False ?host \<and> v \<in> lang False ?tail}"
      by (simp only: lang.simps simp_thms)
    also have "\<dots> = {mid @ ''.office'' @ opt @ ''.com'' | mid opt.
           (mid = ''outlook'' \<or> (\<exists>x. mid = x @ ''.webhook'' \<and> CHR 0x0A \<notin> set x))
           \<and> (opt = [] \<or> opt = ''365'')}"
      unfolding lang_host_alternatives lang_domain_tail by blast
    finally show ?thesis .
  qed
  have "lang b WebhookURLValidPattern
      = (if b then lang True (OpConcat (literals ''https://'') (OpConcat ?host ?tail)) else {})"
    unfolding WebhookURLValidPattern_def by (cases b) auto
  also have "lang True (OpConcat (literals ''https://'') (OpConcat ?host ?tail))
      = {''https://'' @ v | v. v \<in> lang False (OpConcat ?host ?tail)}"
    by (rule lang_OpConcat_literals)
  finally show ?thesis
    unfolding rest by (cases b) auto
qed

lemma match_WebhookURLValidPattern:
  "match_anywhere True WebhookURLValidPattern s \<longleftrightarrow>
     (\<exists>mid opt rest. s = ''https://'' @ mid @ ''.office'' @ opt @ ''.com'' @ rest
        \<and> (mid = ''outlook'' \<or> (\<exists>x. mid = x @ ''.webhook'' \<and> CHR 0x0A \<notin> set x))
        \<and> (opt = [] \<or> opt = ''365''))"
proof -
  define pre where "pre = ''https://''"
  define office where "office = ''.office''"
  define com where "com = ''.com''"
  define P where "P mid opt \<longleftrightarrow>
        (mid = ''outlook'' \<or> (\<exists>x. mid = x @ ''.webhook'' \<and> CHR 0x0A \<notin> set x))
        \<and> (opt = [] \<or> opt = ''365'')" for mid opt :: string
  have F: "lang False WebhookURLValidPattern = {}"
    by (simp add: lang_WebhookURLValidPattern)
  have T: "lang True WebhookURLValidPattern = {pre @ mid @ office @ opt @ com | mid opt. P mid opt}"
    unfolding pre_def office_def com_def P_def by (simp add: lang_WebhookURLValidPattern)
  have "match_anywhere True WebhookURLValidPattern s
        \<longleftrightarrow> (\<exists>p t. s = p @ t \<and> p \<in> {pre @ mid @ office @ opt @ com | mid opt. P mid opt})"
    using match_anywhere_anchored [OF F] T by simp
  also have "\<dots> \<longleftrightarrow> (\<exists>mid opt rest. s = pre @ mid @ office @ opt @ com @ rest \<and> P mid opt)"
  proof
    assume "\<exists>p t. s = p @ t \<and> p \<in> {pre @ mid @ office @ opt @ com | mid opt. P mid opt}"
    then obtain t mid opt where "s = (pre @ mid @ office @ opt @ com) @ t" "P mid opt" by blast
    then have "s = pre @ mid @ office @ opt @ com @ t \<and> P mid opt" by simp
    then show "\<exists>mid opt rest. s = pre @ mid @ office @ opt @ com @ rest \<and> P mid opt" by blast
  next
    assume "\<exists>mid opt rest. s = pre @ mid @ office @ opt @ com @ rest \<and> P mid opt"
    then obtain mid opt rest where "s = pre @ mid @ office @ opt @ com @ rest" "P mid opt" by blast
    then have "s = (pre @ mid @ office @ opt @ com) @ rest"
        "pre @ mid @ office @ opt @ com \<in> {pre @ mid @ office @ opt @ com | mid opt. P mid opt}"
      by auto
    then show "\<exists>p t. s = p @ t \<and> p \<in> {pre @ mid @ office @ opt @ com | mid opt. P mid opt}"
      by blast
  qed
  finally show ?thesis
    unfolding pre_def office_def com_def P_def by simp
qed


section \<open>Properties of the sender\<close>

lemma ValidateWebhook_None_iff:
  "TeamsClient_ValidateWebhook url_parse client s = None \<longleftrightarrow>
     (\<exists>u. url_parse s = Inr u) \<and> match_anywhere True WebhookURLValidPattern s"
  by (cases "url_parse s")
     (simp_all add: TeamsClient_ValidateWebhook_def regexp_MatchString_def)

lemma match_foo_webhook:
  "match_anywhere True WebhookURLValidPattern (''https://foo.webhook.office.com/'' @ rest)"
proof -
  have "''https://foo.webhook.office.com/'' @ rest
        = ''https://'' @ (''foo'' @ ''.webhook'') @ ''.office'' @ [] @ ''.com'' @ (''/'' @ rest)"
    by simp
  moreover have "CHR 0x0A \<notin> set ''foo''" by simp
  ultimately show ?thesis
    unfolding match_WebhookURLValidPattern by blast
qed

lemma match_outlook_office365:
  "match_anywhere True WebhookURLValidPattern (''https://outlook.office365.com/'' @ rest)"
proof -
  have "''https://outlook.office365.com/'' @ rest
        = ''https://'' @ ''outlook'' @ ''.office'' @ ''365'' @ ''.com'' @ (''/'' @ rest)"
    by simp
  then show ?thesis
    unfolding match_WebhookURLValidPattern by blast
qed

lemma no_match_http: "\<not> match_anywhere True WebhookURLValidPattern ''http://foo.webhook.office.com''"
  by (simp add: WebhookURLValidPattern_def)

lemma no_match_evil: "\<not> match_anywhere True WebhookURLValidPattern ''https://evil.com/webhook''"
  by (simp add: WebhookURLValidPattern_def)

text \<open>
  C2. \<open>ValidateWebhook\<close> matches the pattern against the whole string as given, not
  against the host of the parsed URL. It returns no error exactly when the string parses
  as a URL and begins with \<open>https://\<close>, then either \<open>outlook\<close> or any text without a
  line feed that ends in \<open>.webhook\<close>, then \<open>.office\<close> or \<open>.office365\<close>, then
  \<open>.com\<close>; whatever follows is not looked at. So \<open>https://foo.webhook.office.com/...\<close>
  and \<open>https://outlook.office365.com/...\<close> are accepted whenever they parse, and
  \<open>http://foo.webhook.office.com\<close>, \<open>https://evil.com/webhook\<close> and every string that
  does not parse are rejected, whatever the parser.
\<close>

theorem ValidateWebhook_accepts_iff:
  "(TeamsClient_ValidateWebhook url_parse client s = None \<longleftrightarrow>
      (\<exists>u. url_parse s = Inr u)
      \<and> (\<exists>mid opt rest. s = ''https://'' @ mid @ ''.office'' @ opt @ ''.com'' @ rest
            \<and> (mid = ''outlook'' \<or> (\<exists>x. mid = x @ ''.webhook'' \<and> CHR 0x0A \<notin> set x))
            \<and> (opt = [] \<or> opt = ''365'')))
   \<and> (TeamsClient_ValidateWebhook url_parse client (''https://foo.webhook.office.com/'' @ path) = None
        \<longleftrightarrow> (\<exists>u. url_parse (''https://foo.webhook.office.com/'' @ path) = Inr u))
   \<and> (TeamsClient_ValidateWebhook url_parse client (''https://outlook.office365.com/'' @ path) = None
        \<longleftrightarrow> (\<exists>u. url_parse (''https://outlook.office365.com/'' @ path) = Inr u))
   \<and> TeamsClient_ValidateWebhook url_parse client ''http://foo.webhook.office.com'' \<noteq> None
   \<and> TeamsClient_ValidateWebhook url_parse client ''https://evil.com/webhook'' \<noteq> None"
  unfolding ValidateWebhook_None_iff
  using match_foo_webhook [of path] match_outlook_office365 [of path] no_match_http no_match_evil
    match_WebhookURLValidPattern [of s]
  by (simp only: simp_thms)


lemma url_Parse_evil:
  "url_Parse ''https://evil.com/.webhook.office.com'' =
     Inr \<lparr>Scheme = ''https'', Opaque = [], User = None, Host = ''evil.com'',
          Path = ''/.webhook.office.com'', OmitHost = False, ForceQuery = False,
          RawQuery = [], Fragment = []\<rparr>"
  by code_simp

lemma url_Parse_upper_scheme:
  "url_Parse ''HTTPS://foo.webhook.office.com/'' =
     Inr \<lparr>Scheme = ''https'', Opaque = [], User = None, Host = ''foo.webhook.office.com'',
          Path = ''/'', OmitHost = False, ForceQuery = False, RawQuery = [], Fragment = []\<rparr>"
  by code_simp

text \<open>
  The host is not what decides: \<open>https://evil.com/.webhook.office.com\<close> has the host
  \<open>evil.com\<close> and is accepted, since the pattern finds \<open>.webhook.office.com\<close> in the
  path; \<open>HTTPS://foo.webhook.office.com/\<close> parses to the scheme \<open>https\<close> and a host
  under \<open>webhook.office.com\<close> and is rejected, since the pattern wants the scheme in
  lower case.
\<close>

theorem ValidateWebhook_host_counterexample:
  "TeamsClient_ValidateWebhook url_Parse (CreateTeamsClient network_down)
      ''https://evil.com/.webhook.office.com'' = None
   \<and> \<not> spec_ValidateWebhook url_Parse ''https://evil.com/.webhook.office.com''
   \<and> TeamsClient_ValidateWebhook url_Parse (CreateTeamsClient network_down)
      ''HTTPS://foo.webhook.office.com/'' \<noteq> None
   \<and> spec_ValidateWebhook url_Parse ''HTTPS://foo.webhook.office.com/''"
proof -
  have "match_anywhere True WebhookURLValidPattern ''https://evil.com/.webhook.office.com''"
    by (simp add: WebhookURLValidPattern_def)
  moreover have "\<not> match_anywhere True WebhookURLValidPattern ''HTTPS://foo.webhook.office.com/''"
    by (simp add: WebhookURLValidPattern_def)
  moreover have "\<not> spec_webhook_host ''evil.com''"
    by (simp add: spec_webhook_host_def strings_HasSuffix_def)
  moreover have "spec_webhook_host ''foo.webhook.office.com''"
    by (simp add: spec_webhook_host_def strings_HasSuffix_def)
  ultimately show ?thesis
    by (simp add: ValidateWebhook_None_iff spec_ValidateWebhook_def url_Parse_evil
        url_Parse_upper_scheme)
qed

lemma TrimSpace_expected: "strings_TrimSpace ''1'' = ''1''"
  by code_simp

lemma processResponse_cases:
  "processResponse response =
     (case Body response of
        Inl err \<Rightarrow> Inl err
      | Inr responseString \<Rightarrow>
          (if 299 \<le> StatusCode response then
             Inl (fmt_Errorf ''error on code: %v, %q'' [Str (Status response), Str responseString])
           else if responseString \<noteq> ''1'' then
             Inl (fmt_Errorf ''got %q, expected %q: %w''
                    [Str responseString, Str ''1'', Err ErrInvalidResponseText])
           else Inr responseString))"
  by (cases "Body response")
     (simp_all add: processResponse_def ExpectedEndpointResponseText_def TrimSpace_expected)

text \<open>
  C1. \<open>processResponse\<close> applies \<open>strings.TrimSpace\<close> to the expected text \<open>1\<close>, where
  it changes nothing, and compares the body as received. A response with status 200 whose
  body is \<open>1\<close> followed by a line feed is answered with the invalid-response-text error,
  which carries that body, although the body trimmed of white space is the expected text.
\<close>

theorem processResponse_untrimmed_body:
  "processResponse \<lparr>Status = ''200 OK'', StatusCode = 200, Body = Inr (''1'' @ [CHR 0x0A])\<rparr>
     = Inl (fmt_Errorf ''got %q, expected %q: %w''
              [Str (''1'' @ [CHR 0x0A]), Str ''1'', Err ErrInvalidResponseText])
   \<and> strings_TrimSpace (''1'' @ [CHR 0x0A]) = ExpectedEndpointResponseText"
proof -
  have "strings_TrimSpace (''1'' @ [CHR 0x0A]) = ''1''" by code_simp
  then show ?thesis
    by (simp add: processResponse_cases ExpectedEndpointResponseText_def)
qed

lemma processResponse_success_iff:
  "Body response = Inr responseString \<Longrightarrow> StatusCode response < 299 \<Longrightarrow>
     (\<exists>s. processResponse response = Inr s) \<longleftrightarrow> responseString = ''1''"
  by (simp add: processResponse_cases)


text \<open>
  C4. For a response whose body could be read: when the status code is 299 or more,
  \<open>processResponse\<close> fails with the error of format \<open>error on code: %v, %q\<close> holding
  the status line and the whole body, whatever the body is; when the status code is below
  299 it never gives an error of that format. In \<open>sendWithContext\<close>, when the steps
  before have succeeded and the network returns such a response with a status code of 299
  or more, the call fails with that error, wrapped as \<open>failed to process response\<close>.
\<close>

theorem processResponse_endpoint_error:
  assumes "Body response = Inr responseString"
  shows "(299 \<le> StatusCode response \<longrightarrow>
            processResponse response =
              Inl (fmt_Errorf ''error on code: %v, %q'' [Str (Status response), Str responseString]))
         \<and> (StatusCode response < 299 \<longrightarrow>
              (\<forall>args. processResponse response \<noteq> Inl (fmt_Errorf ''error on code: %v, %q'' args)))
         \<and> (299 \<le> StatusCode response \<and> ValidateWebhook client webhookURL = None
              \<and> Validate ops message = None \<and> fst (Prepare ops message) = None
              \<and> prepareRequest url_parse ctxt webhookURL (Payload ops (snd (Prepare ops message)))
                  = Inr request
              \<and> HTTPClient client request = Inr response \<longrightarrow>
              fst (sendWithContext url_parse ctxt client ops webhookURL message) =
                Some (fmt_Errorf ''failed to process response: %w''
                  [Err (fmt_Errorf ''error on code: %v, %q''
                          [Str (Status response), Str responseString])]))"
proof (intro conjI impI)
  assume "299 \<le> StatusCode response"
  with assms show "processResponse response =
      Inl (fmt_Errorf ''error on code: %v, %q'' [Str (Status response), Str responseString])"
    by (simp add: processResponse_cases)
next
  assume "StatusCode response < 299"
  with assms show "\<forall>args. processResponse response \<noteq> Inl (fmt_Errorf ''error on code: %v, %q'' args)"
    by (simp add: processResponse_cases)
next
  assume h: "299 \<le> StatusCode response \<and> ValidateWebhook client webhookURL = None
      \<and> Validate ops message = None \<and> fst (Prepare ops message) = None
      \<and> prepareRequest url_parse ctxt webhookURL (Payload ops (snd (Prepare ops message)))
          = Inr request
      \<and> HTTPClient client request = Inr response"
  then obtain message' where p: "Prepare ops message = (None, message')"
    by (cases "Prepare ops message") auto
  from h assms have "processResponse response =
      Inl (fmt_Errorf ''error on code: %v, %q'' [Str (Status response), Str responseString])"
    by (simp add: processResponse_cases)
  with h p show "fst (sendWithContext url_parse ctxt client ops webhookURL message) =
      Some (fmt_Errorf ''failed to process response: %w''
        [Err (fmt_Errorf ''error on code: %v, %q'' [Str (Status response), Str responseString])])"
    by (simp add: sendWithContext_def)
qed


lemma prepareRequest_ok:
  "url_parse webhookURL = Inr u \<Longrightarrow> \<exists>request. prepareRequest url_parse ctxt webhookURL body = Inr request"
  by (simp add: prepareRequest_def http_NewRequestWithContext_def)

lemma url_Parse_foo:
  "url_Parse ''https://foo.webhook.office.com/x'' =
     Inr \<lparr>Scheme = ''https'', Opaque = [], User = None, Host = ''foo.webhook.office.com'',
          Path = ''/x'', OmitHost = False, ForceQuery = False, RawQuery = [], Fragment = []\<rparr>"
  by code_simp

lemma ValidateWebhook_foo:
  "TeamsClient_ValidateWebhook url_Parse client ''https://foo.webhook.office.com/x'' = None"
proof -
  have "match_anywhere True WebhookURLValidPattern ''https://foo.webhook.office.com/x''"
    using match_foo_webhook [of "''x''"] by simp
  then show ?thesis
    by (simp add: ValidateWebhook_None_iff url_Parse_foo)
qed

lemma ValidateWebhook_evil:
  "TeamsClient_ValidateWebhook url_Parse client ''https://evil.com/webhook'' =
     Some (fmt_Errorf ''%w; got: %q''
       [Err ErrWebHookURLPattern,
        URL_String \<lparr>Scheme = ''https'', Opaque = [], User = None, Host = ''evil.com'',
          Path = ''/webhook'', OmitHost = False, ForceQuery = False, RawQuery = [],
          Fragment = []\<rparr>])"
proof -
  have "url_Parse ''https://evil.com/webhook'' =
     Inr \<lparr>Scheme = ''https'', Opaque = [], User = None, Host = ''evil.com'',
          Path = ''/webhook'', OmitHost = False, ForceQuery = False, RawQuery = [],
          Fragment = []\<rparr>"
    by code_simp
  then show ?thesis
    using no_match_evil
    by (simp add: TeamsClient_ValidateWebhook_def regexp_MatchString_def)
qed

theorem processResponse_endpoint_error_witness:
  "processResponse \<lparr>Status = ''400 Bad Request'', StatusCode = 400, Body = Inr ''Bad payload''\<rparr>
     = Inl (fmt_Errorf ''error on code: %v, %q'' [Str ''400 Bad Request'', Str ''Bad payload''])
   \<and> (\<forall>args. processResponse \<lparr>Status = ''200 OK'', StatusCode = 200, Body = Inr ''0''\<rparr>
         \<noteq> Inl (fmt_Errorf ''error on code: %v, %q'' args))
   \<and> fst (sendWithContext url_Parse context_Background
        (TeamsClient_MessageSender url_Parse (CreateTeamsClient (network_answers
           \<lparr>Status = ''400 Bad Request'', StatusCode = 400, Body = Inr ''Bad payload''\<rparr>)))
        (MessageCard_teamsMessage plain_quote) ''https://foo.webhook.office.com/x''
        (CreateMessageCard\<lparr>Title := ''Build'', Text := ''passed''\<rparr>))
      = Some (fmt_Errorf ''failed to process response: %w''
          [Err (fmt_Errorf ''error on code: %v, %q'' [Str ''400 Bad Request'', Str ''Bad payload''])])"
proof -
  let ?bad = "\<lparr>Status = ''400 Bad Request'', StatusCode = 400, Body = Inr ''Bad payload''\<rparr>"
  let ?good = "\<lparr>Status = ''200 OK'', StatusCode = 200, Body = Inr ''0''\<rparr>"
  let ?client = "TeamsClient_MessageSender url_Parse (CreateTeamsClient (network_answers ?bad))"
  let ?ops = "MessageCard_teamsMessage plain_quote"
  let ?url = "''https://foo.webhook.office.com/x''"
  let ?card = "CreateMessageCard\<lparr>Title := ''Build'', Text := ''passed''\<rparr>"
  obtain request where request:
    "prepareRequest url_Parse context_Background ?url (Payload ?ops (snd (Prepare ?ops ?card)))
       = Inr request"
    using prepareRequest_ok [of url_Parse ?url _ context_Background
        "Payload ?ops (snd (Prepare ?ops ?card))"] url_Parse_foo
    by blast
  have url: "ValidateWebhook ?client ?url = None"
    by (simp add: TeamsClient_MessageSender_def ValidateWebhook_foo)
  have val: "Validate ?ops ?card = None"
    by (simp add: MessageCard_teamsMessage_def MessageCard_Validate_def CreateMessageCard_def)
  have prep: "fst (Prepare ?ops ?card) = None"
    by (simp add: MessageCard_teamsMessage_def Prepare_result)
  have net: "HTTPClient ?client request = Inr ?bad"
    by (simp add: TeamsClient_MessageSender_def TeamsClient_HTTPClient_def CreateTeamsClient_def
        network_answers_def)
  have bad: "Body ?bad = Inr ''Bad payload''" and good: "Body ?good = Inr ''0''"
    by simp_all
  from processResponse_endpoint_error [OF bad, of ?client ?url ?ops ?card url_Parse
      context_Background request]
    processResponse_endpoint_error [OF good, of ?client ?url ?ops ?card url_Parse
      context_Background request]
    url val prep net request
  show ?thesis by simp
qed


text \<open>
  C5. \<open>sendWithContext\<close>, which \<open>Send\<close> runs with the methods of its client, makes its
  calls in one order: \<open>ValidateWebhook\<close>, \<open>Validate\<close>, \<open>Prepare\<close>, then \<open>Payload\<close>
  and \<open>prepareRequest\<close>, the request on the network, and \<open>processResponse\<close>. The first
  call that fails ends it: the error returned wraps that call's error under a format of
  its own, the six formats being pairwise different, and the calls made are those up to
  the failing one and no other. The message is as it was before when one of the two
  validations fails, and as \<open>Prepare\<close> left it afterwards.
\<close>

theorem sendWithContext_step_order:
  "(ValidateWebhook client webhookURL = Some e1 \<longrightarrow>
      sendWithContext url_parse ctxt client ops webhookURL message =
        (Some (fmt_Errorf ''webhook URL validation failed: %w'' [Err e1]), message,
         [Call_ValidateWebhook webhookURL]))
   \<and> (ValidateWebhook client webhookURL = None \<and> Validate ops message = Some e2 \<longrightarrow>
      sendWithContext url_parse ctxt client ops webhookURL message =
        (Some (fmt_Errorf ''failed to validate message: %w'' [Err e2]), message,
         [Call_ValidateWebhook webhookURL, Call_Validate]))
   \<and> (ValidateWebhook client webhookURL = None \<and> Validate ops message = None
        \<and> Prepare ops message = (Some e3, message') \<longrightarrow>
      sendWithContext url_parse ctxt client ops webhookURL message =
        (Some (fmt_Errorf ''failed to prepare message: %w'' [Err e3]), message',
         [Call_ValidateWebhook webhookURL, Call_Validate, Call_Prepare]))
   \<and> (ValidateWebhook client webhookURL = None \<and> Validate ops message = None
        \<and> Prepare ops message = (None, message')
        \<and> prepareRequest url_parse ctxt webhookURL (Payload ops message') = Inl e4 \<longrightarrow>
      sendWithContext url_parse ctxt client ops webhookURL message =
        (Some (fmt_Errorf ''failed to prepare request: %w'' [Err e4]), message',
         [Call_ValidateWebhook webhookURL, Call_Validate, Call_Prepare, Call_Payload,
          Call_prepareRequest]))
   \<and> (ValidateWebhook client webhookURL = None \<and> Validate ops message = None
        \<and> Prepare ops message = (None, message')
        \<and> prepareRequest url_parse ctxt webhookURL (Payload ops message') = Inr request
        \<and> HTTPClient client request = Inl e5 \<longrightarrow>
      sendWithContext url_parse ctxt client ops webhookURL message =
        (Some (fmt_Errorf ''failed to send message: %w'' [Err e5]), message',
         [Call_ValidateWebhook webhookURL, Call_Validate, Call_Prepare, Call_Payload,
          Call_prepareRequest, Call_Do request]))
   \<and> (ValidateWebhook client webhookURL = None \<and> Validate ops message = None
        \<and> Prepare ops message = (None, message')
        \<and> prepareRequest url_parse ctxt webhookURL (Payload ops message') = Inr request
        \<and> HTTPClient client request = Inr response \<longrightarrow>
      sendWithContext url_parse ctxt client ops webhookURL message =
        ((case processResponse response of
            Inl e6 \<Rightarrow> Some (fmt_Errorf ''failed to process response: %w'' [Err e6])
          | Inr responseString \<Rightarrow> None), message',
         [Call_ValidateWebhook webhookURL, Call_Validate, Call_Prepare, Call_Payload,
          Call_prepareRequest, Call_Do request, Call_processResponse response]))
   \<and> distinct [''webhook URL validation failed: %w'', ''failed to validate message: %w'',
        ''failed to prepare message: %w'', ''failed to prepare request: %w'',
        ''failed to send message: %w'', ''failed to process response: %w'']"
proof (intro conjI impI)
  show "distinct [''webhook URL validation failed: %w'', ''failed to validate message: %w'',
        ''failed to prepare message: %w'', ''failed to prepare request: %w'',
        ''failed to send message: %w'', ''failed to process response: %w'']"
    by simp
qed (simp_all add: sendWithContext_def split: sum.splits)

lemma Send_eq:
  "Send url_parse client ops webhookURL message =
     sendWithContext url_parse (context_WithTimeout context_Background WebhookSendTimeout)
       \<lparr>HTTPClient = httpClient client,
        ValidateWebhook = TeamsClient_ValidateWebhook url_parse client\<rparr> ops webhookURL message"
  by (simp add: Send_def TeamsClient_MessageSender_def TeamsClient_HTTPClient_def)

text \<open>
  C10. When the validation of the webhook URL or the validation of the card fails,
  \<open>Send\<close> returns an error, \<open>Prepare\<close> is not called and no request is made, and the
  card returned is the card given: its payload and all its other fields are unchanged.
\<close>

theorem Send_early_failure_keeps_card:
  assumes "TeamsClient_ValidateWebhook url_parse client webhookURL \<noteq> None
           \<or> MessageCard_Validate mc \<noteq> None"
  shows "fst (Send url_parse client (MessageCard_teamsMessage q) webhookURL mc) \<noteq> None
         \<and> fst (snd (Send url_parse client (MessageCard_teamsMessage q) webhookURL mc)) = mc
         \<and> Call_Prepare \<notin> set (snd (snd (Send url_parse client (MessageCard_teamsMessage q) webhookURL mc)))
         \<and> (\<forall>request. Call_Do request
               \<notin> set (snd (snd (Send url_parse client (MessageCard_teamsMessage q) webhookURL mc))))"
proof (cases "TeamsClient_ValidateWebhook url_parse client webhookURL")
  case (Some e)
  then show ?thesis
    by (simp add: Send_eq sendWithContext_def)
next
  case None
  with assms obtain e where "MessageCard_Validate mc = Some e" by auto
  with None show ?thesis
    by (simp add: Send_eq sendWithContext_def MessageCard_teamsMessage_def)
qed


theorem sendWithContext_step_order_witness:
  "sendWithContext url_Parse context_Background
      (TeamsClient_MessageSender url_Parse (CreateTeamsClient network_down))
      (MessageCard_teamsMessage plain_quote) ''https://evil.com/webhook'' CreateMessageCard
     = (Some (fmt_Errorf ''webhook URL validation failed: %w''
          [Err (fmt_Errorf ''%w; got: %q''
             [Err ErrWebHookURLPattern,
              URL_String \<lparr>Scheme = ''https'', Opaque = [], User = None, Host = ''evil.com'',
                Path = ''/webhook'', OmitHost = False, ForceQuery = False, RawQuery = [],
                Fragment = []\<rparr>])]),
        CreateMessageCard, [Call_ValidateWebhook ''https://evil.com/webhook''])
   \<and> sendWithContext url_Parse context_Background
      (TeamsClient_MessageSender url_Parse (CreateTeamsClient network_down))
      (MessageCard_teamsMessage plain_quote) ''https://foo.webhook.office.com/x'' CreateMessageCard
     = (Some (fmt_Errorf ''failed to validate message: %w'' [Err ErrTitleRequired]),
        CreateMessageCard, [Call_ValidateWebhook ''https://foo.webhook.office.com/x'', Call_Validate])
   \<and> sendWithContext url_Parse context_Background
      (TeamsClient_MessageSender url_Parse (CreateTeamsClient network_down))
      unpreparable ''https://foo.webhook.office.com/x'' ()
     = (Some (fmt_Errorf ''failed to prepare message: %w'' [Err (errors_New ''cannot prepare'')]),
        (), [Call_ValidateWebhook ''https://foo.webhook.office.com/x'', Call_Validate, Call_Prepare])
   \<and> fst (sendWithContext url_Parse context_Background
      (TeamsClient_MessageSender url_Parse (CreateTeamsClient network_down))
      (MessageCard_teamsMessage plain_quote) ''https://foo.webhook.office.com/x''
      (CreateMessageCard\<lparr>Title := ''Build'', Text := ''passed''\<rparr>))
     = Some (fmt_Errorf ''failed to send message: %w''
         [Err (errors_New ''dial tcp: connection refused'')])"
proof -
  let ?client = "TeamsClient_MessageSender url_Parse (CreateTeamsClient network_down)"
  let ?ops = "MessageCard_teamsMessage plain_quote"
  let ?evil = "''https://evil.com/webhook''"
  let ?foo = "''https://foo.webhook.office.com/x''"
  let ?card = "CreateMessageCard\<lparr>Title := ''Build'', Text := ''passed''\<rparr>"
  let ?e1 = "fmt_Errorf ''%w; got: %q''
      [Err ErrWebHookURLPattern,
       URL_String \<lparr>Scheme = ''https'', Opaque = [], User = None, Host = ''evil.com'',
         Path = ''/webhook'', OmitHost = False, ForceQuery = False, RawQuery = [],
         Fragment = []\<rparr>]"
  let ?e3 = "errors_New ''cannot prepare''"
  let ?e5 = "errors_New ''dial tcp: connection refused''"
  let ?card' = "snd (Prepare ?ops ?card)"
  obtain request where request:
    "prepareRequest url_Parse context_Background ?foo (Payload ?ops ?card') = Inr request"
    using prepareRequest_ok [of url_Parse ?foo _ context_Background "Payload ?ops ?card'"]
      url_Parse_foo
    by blast
  have evil: "ValidateWebhook ?client ?evil = Some ?e1"
    by (simp add: TeamsClient_MessageSender_def ValidateWebhook_evil)
  have foo: "ValidateWebhook ?client ?foo = None"
    by (simp add: TeamsClient_MessageSender_def ValidateWebhook_foo)
  have invalid: "Validate ?ops CreateMessageCard = Some ErrTitleRequired"
    by (simp add: MessageCard_teamsMessage_def MessageCard_Validate_def CreateMessageCard_def)
  have valid: "Validate ?ops ?card = None"
    by (simp add: MessageCard_teamsMessage_def MessageCard_Validate_def CreateMessageCard_def)
  have un_valid: "Validate unpreparable () = None"
    and un_prep: "Prepare unpreparable () = (Some ?e3, ())"
    by (simp_all add: unpreparable_def)
  have prep: "Prepare ?ops ?card = (None, ?card')"
    by (simp add: MessageCard_teamsMessage_def Prepare_result)
  have down: "HTTPClient ?client request = Inl ?e5"
    by (simp add: TeamsClient_MessageSender_def TeamsClient_HTTPClient_def CreateTeamsClient_def
        network_down_def)
  have a: "sendWithContext url_Parse context_Background ?client ?ops ?evil CreateMessageCard
      = (Some (fmt_Errorf ''webhook URL validation failed: %w'' [Err ?e1]), CreateMessageCard,
         [Call_ValidateWebhook ?evil])"
    using sendWithContext_step_order [where client = ?client and webhookURL = ?evil
        and ?e1.0 = ?e1 and url_parse = url_Parse and ctxt = context_Background and ops = ?ops
        and message = CreateMessageCard and ?e2.0 = ErrTitleRequired and ?e3.0 = ?e3
        and message' = CreateMessageCard and ?e4.0 = ?e3 and request = request and ?e5.0 = ?e5
        and response = "\<lparr>Status = [], StatusCode = 0, Body = Inr []\<rparr>"]
      evil
    by blast
  have b: "sendWithContext url_Parse context_Background ?client ?ops ?foo CreateMessageCard
      = (Some (fmt_Errorf ''failed to validate message: %w'' [Err ErrTitleRequired]),
         CreateMessageCard, [Call_ValidateWebhook ?foo, Call_Validate])"
    using sendWithContext_step_order [where client = ?client and webhookURL = ?foo
        and ?e1.0 = ?e1 and url_parse = url_Parse and ctxt = context_Background and ops = ?ops
        and message = CreateMessageCard and ?e2.0 = ErrTitleRequired and ?e3.0 = ?e3
        and message' = CreateMessageCard and ?e4.0 = ?e3 and request = request and ?e5.0 = ?e5
        and response = "\<lparr>Status = [], StatusCode = 0, Body = Inr []\<rparr>"]
      foo invalid
    by blast
  have c: "sendWithContext url_Parse context_Background ?client unpreparable ?foo ()
      = (Some (fmt_Errorf ''failed to prepare message: %w'' [Err ?e3]), (),
         [Call_ValidateWebhook ?foo, Call_Validate, Call_Prepare])"
    using sendWithContext_step_order [where client = ?client and webhookURL = ?foo
        and ?e1.0 = ?e1 and url_parse = url_Parse and ctxt = context_Background
        and ops = unpreparable
        and message = "()" and ?e2.0 = ErrTitleRequired and ?e3.0 = ?e3
        and message' = "()" and ?e4.0 = ?e3 and request = request and ?e5.0 = ?e5
        and response = "\<lparr>Status = [], StatusCode = 0, Body = Inr []\<rparr>"]
      foo un_valid un_prep
    by blast
  have d: "sendWithContext url_Parse context_Background ?client ?ops ?foo ?card
      = (Some (fmt_Errorf ''failed to send message: %w'' [Err ?e5]), ?card',
         [Call_ValidateWebhook ?foo, Call_Validate, Call_Prepare, Call_Payload,
          Call_prepareRequest, Call_Do request])"
    using sendWithContext_step_order [where client = ?client and webhookURL = ?foo
        and ?e1.0 = ?e1 and url_parse = url_Parse and ctxt = context_Background and ops = ?ops
        and message = ?card and ?e2.0 = ErrTitleRequired and ?e3.0 = ?e3
        and message' = ?card' and ?e4.0 = ?e3 and request = request and ?e5.0 = ?e5
        and response = "\<lparr>Status = [], StatusCode = 0, Body = Inr []\<rparr>"]
      foo valid prep request down
    by blast
  from a b c d show ?thesis by (simp only: fst_conv simp_thms)
qed

theorem Send_early_failure_keeps_card_witness:
  "fst (Send url_Parse (CreateTeamsClient network_down) (MessageCard_teamsMessage plain_quote)
          ''https://evil.com/webhook'' (CreateMessageCard\<lparr>Title := ''Build'', Text := ''passed''\<rparr>))
     \<noteq> None
   \<and> fst (snd (Send url_Parse (CreateTeamsClient network_down) (MessageCard_teamsMessage plain_quote)
          ''https://evil.com/webhook'' (CreateMessageCard\<lparr>Title := ''Build'', Text := ''passed''\<rparr>)))
     = CreateMessageCard\<lparr>Title := ''Build'', Text := ''passed''\<rparr>
   \<and> Call_Prepare \<notin> set (snd (snd (Send url_Parse (CreateTeamsClient network_down)
          (MessageCard_teamsMessage plain_quote) ''https://evil.com/webhook''
          (CreateMessageCard\<lparr>Title := ''Build'', Text := ''passed''\<rparr>))))
   \<and> fst (Send url_Parse (CreateTeamsClient network_down) (MessageCard_teamsMessage plain_quote)
          ''https://foo.webhook.office.com/x'' (CreateMessageCard\<lparr>Title := ''Build''\<rparr>))
     \<noteq> None
   \<and> fst (snd (Send url_Parse (CreateTeamsClient network_down) (MessageCard_teamsMessage plain_quote)
          ''https://foo.webhook.office.com/x'' (CreateMessageCard\<lparr>Title := ''Build''\<rparr>)))
     = CreateMessageCard\<lparr>Title := ''Build''\<rparr>
   \<and> Call_Prepare \<notin> set (snd (snd (Send url_Parse (CreateTeamsClient network_down)
          (MessageCard_teamsMessage plain_quote) ''https://foo.webhook.office.com/x''
          (CreateMessageCard\<lparr>Title := ''Build''\<rparr>))))"
proof -
  let ?client = "CreateTeamsClient network_down"
  have url: "TeamsClient_ValidateWebhook url_Parse ?client ''https://evil.com/webhook'' \<noteq> None
      \<or> MessageCard_Validate (CreateMessageCard\<lparr>Title := ''Build'', Text := ''passed''\<rparr>) \<noteq> None"
    by (simp add: ValidateWebhook_evil)
  have msg: "TeamsClient_ValidateWebhook url_Parse ?client ''https://foo.webhook.office.com/x'' \<noteq> None
      \<or> MessageCard_Validate (CreateMessageCard\<lparr>Title := ''Build''\<rparr>) \<noteq> None"
    by (simp add: MessageCard_Validate_def CreateMessageCard_def)
  from Send_early_failure_keeps_card [OF url, of plain_quote]
    Send_early_failure_keeps_card [OF msg, of plain_quote]
  show ?thesis by blast
qed

text \<open>
  The time limit: \<open>WebhookSendTimeout\<close> is five seconds in nanoseconds, the one request
  that \<open>Send\<close> hands to the network carries a context with that limit, and \<open>Send\<close>
  makes at most one request.
\<close>

lemma WebhookSendTimeout_five_seconds: "WebhookSendTimeout = 5000000000"
  by (simp add: WebhookSendTimeout_def time_Second_def)

lemma prepareRequest_ctx:
  "prepareRequest url_parse ctxt webhookURL body = Inr request \<Longrightarrow> ctx request = ctxt"
  by (auto simp: prepareRequest_def http_NewRequestWithContext_def split: sum.splits)

lemma Send_request_timeout:
  assumes "Call_Do request \<in> set (snd (snd (Send url_parse client ops webhookURL message)))"
  shows "timeout (ctx request) = Some WebhookSendTimeout"
proof -
  from assms have "prepareRequest url_parse
      (context_WithTimeout context_Background WebhookSendTimeout) webhookURL
      (Payload ops (snd (Prepare ops message))) = Inr request"
    by (auto simp: Send_eq sendWithContext_def split: option.splits sum.splits prod.splits)
  from prepareRequest_ctx [OF this] show ?thesis
    by (simp add: context_WithTimeout_def context_Background_def)
qed

lemma Send_one_request_at_most:
  "length (filter (\<lambda>c. case c of Call_Do request \<Rightarrow> True | _ \<Rightarrow> False)
     (snd (snd (Send url_parse client ops webhookURL message)))) \<le> 1"
  by (simp add: Send_eq sendWithContext_def split: option.splits sum.splits prod.splits)


end
